theory Spec2Isabelle
  imports Main
begin

section \<open>Go values used by the reconciler\<close>

text \<open>
  A non-nil Go \<open>error\<close> value. Two things are observed of it by the controller:
  the text that \<open>fmt.Sprintf("%v", err)\<close> prints (its \<open>Error()\<close> string) and the
  answer of \<open>kerr.IsNotFound(err)\<close>. A nil error is \<open>None\<close> of \<open>go_error option\<close>.
\<close>

record go_error =
  message :: string
  is_k8s_not_found :: bool

text \<open>
  A Go run-time panic. The only one the controller can raise by itself is the
  index expression \<open>a[i]\<close> with \<open>i\<close> not below \<open>len(a)\<close>.
\<close>

datatype panic = IndexOutOfRange nat nat

text \<open>
  \<open>ctrl.Result\<close>: the requeue directive. \<open>RequeueAfter\<close> is a \<open>time.Duration\<close>,
  a count of nanoseconds in an \<open>int64\<close>. The only duration the controller computes
  is \<open>time.Second * 60\<close>, far below \<open>2^63\<close>, so an unbounded integer stands for it.
\<close>

record Result =
  Requeue :: bool
  RequeueAfter :: int

definition zero_Result :: Result where
  "zero_Result = \<lparr>Requeue = False, RequeueAfter = 0\<rparr>"

definition Second :: int where
  "Second = 1000000000"

text \<open>How an invocation of \<open>Reconcile\<close> ends: it returns its pair, or it panics.\<close>

datatype outcome = Return Result "go_error option" | Panicked panic

text \<open>
  The custom resource \<open>benzaiten.GCPKubernetesCluster\<close> with the fields the
  controller reads and writes, and \<open>container.Cluster\<close> of the provider's API.
  \<open>benzaiten.ClusterStatus\<close> is a string type: the controller converts it to and
  from the provider's status string. The node count is an \<open>int64\<close> that is only
  copied from the spec into the create call.
\<close>

type_synonym ClusterStatus = string

record GCPKubernetesClusterSpec =
  Zone :: string
  ClusterName :: string
  InitialNodeCount :: int

record GCPKubernetesCluster =
  Name :: string
  Spec :: GCPKubernetesClusterSpec
  Phase :: ClusterStatus

record Cluster =
  cl_Name :: string
  cl_InitialNodeCount :: int
  cl_Status :: string

type_synonym Operation = string

text \<open>
  The five \<open>ClusterStatus\<close> constants are declared in the API package, which is
  not part of the controller's file; their string values are a parameter of
  the model.
\<close>

record phases =
  ClusterStatusUnspecified :: ClusterStatus
  ClusterStatusProvisioning :: ClusterStatus
  ClusterStatusRunning :: ClusterStatus
  ClusterStatusDegraded :: ClusterStatus
  ClusterStatusError :: ClusterStatus

section \<open>Collaborators and observable calls\<close>

text \<open>
  Every call the reconciler makes on a collaborator is recorded, in order.
  Key/value arguments of the logger are left out.
\<close>

datatype call =
    ClientGet
  | GetCluster string string
  | CreateCluster string string int
  | Event string string string
  | StatusUpdate ClusterStatus
  | LoggerInfo string
  | LoggerError string

text \<open>Which case of the \<open>select\<close> statement fires: the ticker, or \<open>ctx.Done()\<close>
  (then \<open>ctx.Err()\<close> is the given non-nil error).\<close>

datatype select_case = TickerC | CtxDone go_error

text \<open>
  The collaborators (the resource store behind \<open>client.Client\<close>, the cloud client
  \<open>cr.cloud.GCP\<close>, the context) are not part of the controller's file: their
  answers for one invocation are a parameter. A call that returns a value and an
  error is a sum, the error on the left. \<open>store_get\<close> is the answer of
  \<open>cr.Get\<close> for the request; \<open>gcp_get n\<close> the answer of the \<open>n\<close>-th call (from 0) of
  \<open>GetCluster\<close>; \<open>gcp_create\<close> the answer of \<open>CreateCluster\<close>;
  \<open>status_update n\<close> the error (or nil) of the \<open>n\<close>-th call of \<open>Status().Update\<close>;
  \<open>select n\<close> the case that fires the \<open>n\<close>-th time the loop waits.
\<close>

record env =
  store_get :: "go_error + GCPKubernetesCluster"
  gcp_get :: "nat \<Rightarrow> go_error + Cluster"
  gcp_create :: "go_error + Operation"
  status_update :: "nat \<Rightarrow> go_error option"
  select :: "nat \<Rightarrow> select_case"

text \<open>
  The state of an invocation: the local copy \<open>gkcCR\<close>, the phases the store has
  accepted so far (\<open>persisted\<close>, oldest first), the calls made, and how many
  answers of each collaborator have been consumed.
\<close>

record state =
  gkcCR :: GCPKubernetesCluster
  persisted :: "ClusterStatus list"
  calls :: "call list"
  gets :: nat
  updates :: nat
  selects :: nat

definition zero_GCPKubernetesCluster :: GCPKubernetesCluster where
  "zero_GCPKubernetesCluster =
     \<lparr>Name = [], Spec = \<lparr>Zone = [], ClusterName = [], InitialNodeCount = 0\<rparr>, Phase = []\<rparr>"

definition init_state :: state where
  "init_state = \<lparr>gkcCR = zero_GCPKubernetesCluster, persisted = [], calls = [],
     gets = 0, updates = 0, selects = 0\<rparr>"

definition record_call :: "call \<Rightarrow> state \<Rightarrow> state" where
  "record_call c s = s\<lparr>calls := calls s @ [c]\<rparr>"

definition logger_Info :: "string \<Rightarrow> state \<Rightarrow> state" where
  "logger_Info msg s = record_call (LoggerInfo msg) s"

definition logger_Error :: "string \<Rightarrow> state \<Rightarrow> state" where
  "logger_Error msg s = record_call (LoggerError msg) s"

definition emit_Event :: "string \<Rightarrow> string \<Rightarrow> string \<Rightarrow> state \<Rightarrow> state" where
  "emit_Event eventtype reason msg s = record_call (Event eventtype reason msg) s"

definition call_GetCluster ::
  "env \<Rightarrow> string \<Rightarrow> string \<Rightarrow> state \<Rightarrow> (go_error + Cluster) \<times> state" where
  "call_GetCluster e zone name s =
     (gcp_get e (gets s), (record_call (GetCluster zone name) s)\<lparr>gets := Suc (gets s)\<rparr>)"

definition call_CreateCluster ::
  "env \<Rightarrow> string \<Rightarrow> Cluster \<Rightarrow> state \<Rightarrow> (go_error + Operation) \<times> state" where
  "call_CreateCluster e zone c s =
     (gcp_create e, record_call (CreateCluster zone (cl_Name c) (cl_InitialNodeCount c)) s)"

text \<open>
  \<open>cr.Status().Update(ctx, &gkcCR)\<close>: the store accepts the phase of the local copy
  when the call returns nil, and keeps what it had otherwise. The call leaves
  the spec of the local copy as it is.
\<close>

definition call_StatusUpdate :: "env \<Rightarrow> state \<Rightarrow> go_error option \<times> state" where
  "call_StatusUpdate e s =
     (let err = status_update e (updates s);
          ph = Phase (gkcCR s)
      in (err, (record_call (StatusUpdate ph) s)
                 \<lparr>persisted := (if err = None then persisted s @ [ph] else persisted s),
                  updates := Suc (updates s)\<rparr>))"

section \<open>The not-found classifier\<close>

text \<open>
  \<open>strings.Split(s, ":")\<close> for the one-byte separator: the pieces of \<open>s\<close> between
  separators, always at least one piece.
\<close>

fun strings_Split :: "string \<Rightarrow> char \<Rightarrow> string list" where
  "strings_Split [] sep = [[]]"
| "strings_Split (c # s) sep =
     (if c = sep then [] # strings_Split s sep
      else (case strings_Split s sep of
              [] \<Rightarrow> [[c]]
            | piece # pieces \<Rightarrow> (c # piece) # pieces))"

text \<open>\<open>fmt.Sprintf("%v", err)\<close>: the error's text, \<open><nil>\<close> for a nil error.\<close>

definition Sprintf_v :: "go_error option \<Rightarrow> string" where
  "Sprintf_v err = (case err of None \<Rightarrow> ''<nil>'' | Some e \<Rightarrow> message e)"

text \<open>
  \<open>notFoundGCPResource\<close> (lines 160-162) indexes the split at 1 without
  a length check: with a single piece the index expression panics.
\<close>

definition notFoundGCPResource :: "go_error option \<Rightarrow> panic + bool" where
  "notFoundGCPResource err =
     (let parts = strings_Split (Sprintf_v err) (CHR '':'')
      in if 1 < length parts then Inr (parts ! 1 = '' Error 404'')
         else Inl (IndexOutOfRange 1 (length parts)))"

section \<open>The reconciler\<close>

text \<open>\<open>updateStatus\<close> (lines 27-34): logs when asked to, and overwrites the status
  of the local copy.\<close>

definition updateStatus :: "bool \<Rightarrow> ClusterStatus \<Rightarrow> string \<Rightarrow> state \<Rightarrow> state" where
  "updateStatus toLog cs msg s =
     (let s1 = (if toLog then logger_Info msg s else s)
      in s1\<lparr>gkcCR := (gkcCR s1)\<lparr>Phase := cs\<rparr>\<rparr>)"

text \<open>
  One pass through the body of the \<open>for\<close> loop (lines 72-110). The first
  component is \<open>None\<close> when the loop goes round again, and the outcome of
  \<open>Reconcile\<close> when the body returns.
\<close>

definition poll_body :: "phases \<Rightarrow> env \<Rightarrow> state \<Rightarrow> outcome option \<times> state" where
  "poll_body K e s0 =
     (let s1 = s0\<lparr>selects := Suc (selects s0)\<rparr> in
      case select e (selects s0) of
        CtxDone cerr \<Rightarrow> (Some (Return zero_Result (Some cerr)), s1)
      | TickerC \<Rightarrow>
          (case call_GetCluster e (Zone (Spec (gkcCR s1))) (ClusterName (Spec (gkcCR s1))) s1 of
             (Inl err, s2) \<Rightarrow>
               (Some (Return zero_Result (Some err)),
                logger_Error ''error verifying cluster status'' s2)
           | (Inr gkcCreated, s2) \<Rightarrow>
               (let s3 = emit_Event ''Normal'' ''ClusterProvisioning''
                           ''GCP Kubernetes Cluster provisioning'' s2;
                    s4 = updateStatus False (ClusterStatusProvisioning K)
                           ''GCP Kubernetes Cluster provisioning'' s3
                in case call_StatusUpdate e s4 of
                     (Some err, s5) \<Rightarrow>
                       (Some (Return zero_Result (Some err)),
                        logger_Error ''error updating gcpkubernetescluster status'' s5)
                   | (None, s5) \<Rightarrow>
                       if cl_Status gkcCreated = ClusterStatusRunning K then
                         (let s6 = emit_Event ''Normal'' ''ClusterRunning''
                                     ''GCP Kubernetes Cluster running'' s5;
                              s7 = updateStatus True (ClusterStatusRunning K)
                                     ''GCP Kubernetes Cluster running'' s6
                          in case call_StatusUpdate e s7 of
                               (Some err, s8) \<Rightarrow>
                                 (Some (Return zero_Result (Some err)),
                                  logger_Error ''error updating gcpkubernetescluster status'' s8)
                             | (None, s8) \<Rightarrow> (Some (Return zero_Result None), s8))
                       else if cl_Status gkcCreated = ClusterStatusError K
                               \<or> cl_Status gkcCreated = ClusterStatusDegraded K
                               \<or> cl_Status gkcCreated = ClusterStatusUnspecified K then
                         (let s6 = emit_Event ''Warning'' ''ClusterNotRunning''
                                     (''GCP Kubernetes Cluster status is not running: ''
                                        @ cl_Status gkcCreated) s5;
                              s7 = updateStatus True (ClusterStatusError K)
                                     ''GCP Kubernetes Cluster not running'' s6
                          in case call_StatusUpdate e s7 of
                               (Some err, s8) \<Rightarrow>
                                 (Some (Return zero_Result (Some err)),
                                  logger_Error ''error updating gcpkubernetescluster status'' s8)
                             | (None, s8) \<Rightarrow> (Some (Return zero_Result None), s8))
                       else (None, s5))))"

text \<open>
  The \<open>for\<close> loop (line 71) has no bound of its own: it ends only when its body
  returns. The first argument bounds the number of passes; \<open>None\<close> in the first
  component says that the loop is still running after that many passes, the
  state being the one reached so far.
\<close>

fun poll_loop :: "nat \<Rightarrow> phases \<Rightarrow> env \<Rightarrow> state \<Rightarrow> outcome option \<times> state" where
  "poll_loop 0 K e s = (None, s)"
| "poll_loop (Suc fuel) K e s =
     (case poll_body K e s of
        (Some out, s') \<Rightarrow> (Some out, s')
      | (None, s') \<Rightarrow> poll_loop fuel K e s')"

text \<open>The creation branch (lines 50-113), entered when the first query is
  classified as not-found.\<close>

definition create_branch :: "nat \<Rightarrow> phases \<Rightarrow> env \<Rightarrow> state \<Rightarrow> outcome option \<times> state" where
  "create_branch fuel K e s0 =
     (let s1 = logger_Info ''gcpkubernetescluster not found, creating cluster...'' s0 in
      case call_CreateCluster e (Zone (Spec (gkcCR s1)))
             \<lparr>cl_Name = ClusterName (Spec (gkcCR s1)),
              cl_InitialNodeCount = InitialNodeCount (Spec (gkcCR s1)),
              cl_Status = []\<rparr> s1 of
        (Inl err, s2) \<Rightarrow>
          (Some (Return zero_Result (Some err)),
           logger_Error ''error creating gcpkubernetescluster'' s2)
      | (Inr op, s2) \<Rightarrow>
          (let s3 = emit_Event ''Normal'' ''ClusterCreation''
                      ''GCP Kubernetes Cluster creating'' s2;
               s4 = updateStatus True (ClusterStatusProvisioning K)
                      ''GCP Kubernetes Cluster creating'' s3
           in case call_StatusUpdate e s4 of
                (Some err, s5) \<Rightarrow>
                  (Some (Return zero_Result (Some err)),
                   logger_Error ''error updating gcpkubernetescluster status'' s5)
              | (None, s5) \<Rightarrow> poll_loop fuel K e s5))"

text \<open>The detection path (lines 119-133), taken when the first query succeeds.\<close>

definition detect_branch :: "phases \<Rightarrow> env \<Rightarrow> Cluster \<Rightarrow> state \<Rightarrow> outcome option \<times> state" where
  "detect_branch K e gkc0 s0 =
     (let gkc = gkc0\<lparr>cl_Status := ClusterStatusRunning K\<rparr>;
          s1 = emit_Event ''Normal'' ''ClusterDetection'' ''GCP Kubernetes Cluster found'' s0;
          s2 = updateStatus True (cl_Status gkc) ''GCP Kubernetes Cluster found'' s1
      in case call_StatusUpdate e s2 of
           (Some err, s3) \<Rightarrow>
             (Some (Return zero_Result (Some err)),
              logger_Error ''error updating gcpkubernetescluster status'' s3)
         | (None, s3) \<Rightarrow>
             (let s4 = logger_Info ''gcpkubernetescluster found, synchronizing...'' s3;
                  s5 = logger_Info ''gcp kubernetes cluster reconciled'' s4
              in (Some (Return \<lparr>Requeue = False, RequeueAfter = Second * 60\<rparr> None), s5)))"

text \<open>
  \<open>Reconcile\<close> (lines 36-134). The short-circuit \<open>err != nil && notFoundGCPResource(err)\<close>
  of line 49 calls the classifier only on a non-nil error; a panic of the
  classifier ends the invocation.
\<close>

definition Reconcile :: "nat \<Rightarrow> phases \<Rightarrow> env \<Rightarrow> outcome option \<times> state" where
  "Reconcile fuel K e =
     (let s0 = record_call ClientGet init_state in
      case store_get e of
        Inl err \<Rightarrow>
          if is_k8s_not_found err
          then (Some (Return zero_Result None), logger_Info ''gcpkubernetescluster not found'' s0)
          else (Some (Return zero_Result (Some err)), s0)
      | Inr obj \<Rightarrow>
          (let s1 = s0\<lparr>gkcCR := obj\<rparr> in
           case call_GetCluster e (Zone (Spec (gkcCR s1))) (ClusterName (Spec (gkcCR s1))) s1 of
             (Inl err, s2) \<Rightarrow>
               (case notFoundGCPResource (Some err) of
                  Inl p \<Rightarrow> (Some (Panicked p), s2)
                | Inr True \<Rightarrow> create_branch fuel K e s2
                | Inr False \<Rightarrow>
                    (Some (Return zero_Result (Some err)),
                     logger_Error ''error getting gcpkubernetescluster'' s2))
           | (Inr gkc, s2) \<Rightarrow> detect_branch K e gkc s2))"

section \<open>Reading the calls of a run\<close>

fun create_calls :: "call list \<Rightarrow> (string \<times> string \<times> int) list" where
  "create_calls [] = []"
| "create_calls (CreateCluster z n k # cs) = (z, n, k) # create_calls cs"
| "create_calls (c # cs) = create_calls cs"

fun status_calls :: "call list \<Rightarrow> ClusterStatus list" where
  "status_calls [] = []"
| "status_calls (StatusUpdate p # cs) = p # status_calls cs"
| "status_calls (c # cs) = status_calls cs"

fun event_calls :: "call list \<Rightarrow> (string \<times> string \<times> string) list" where
  "event_calls [] = []"
| "event_calls (Event t r m # cs) = (t, r, m) # event_calls cs"
| "event_calls (c # cs) = event_calls cs"

section \<open>Vocabulary of the properties\<close>

text \<open>
  The definitions of this section are not code of the controller. They name the
  statuses, the calls and the states that the properties speak of; the lemmas
  on the loop show that the controller reaches exactly these states.
\<close>

text \<open>The four provider statuses on which the loop body returns (lines 87 and 97).\<close>

definition terminal_status :: "phases \<Rightarrow> string \<Rightarrow> bool" where
  "terminal_status K st =
     (st = ClusterStatusRunning K \<or> st = ClusterStatusError K
      \<or> st = ClusterStatusDegraded K \<or> st = ClusterStatusUnspecified K)"

text \<open>The phase written on such a status: \<open>Running\<close> for the first, \<open>Error\<close> for the
  other three.\<close>

definition final_phase :: "phases \<Rightarrow> string \<Rightarrow> ClusterStatus" where
  "final_phase K st =
     (if st = ClusterStatusRunning K then ClusterStatusRunning K else ClusterStatusError K)"

text \<open>
  Tick \<open>i\<close> of the loop (from 0) goes round: the ticker fires, the query (call
  \<open>i + 1\<close> of \<open>GetCluster\<close>) answers a cluster whose status is none of the four,
  and the status write (call \<open>i + 1\<close> of \<open>Status().Update\<close>) succeeds.
\<close>

definition continues :: "phases \<Rightarrow> env \<Rightarrow> nat \<Rightarrow> bool" where
  "continues K e i =
     (select e i = TickerC
      \<and> (case gcp_get e (Suc i) of Inl err \<Rightarrow> False
          | Inr c \<Rightarrow> \<not> terminal_status K (cl_Status c))
      \<and> status_update e (Suc i) = None)"

text \<open>The textual shape of a provider not-found error: split at the colons,
  the message has a second segment and it is \<open> Error 404\<close>.\<close>

definition not_found_shape :: "string \<Rightarrow> bool" where
  "not_found_shape msg =
     (case strings_Split msg (CHR '':'') of
        first # second # rest \<Rightarrow> second = '' Error 404''
      | _ \<Rightarrow> False)"

text \<open>The calls made before the loop is entered, and those of one tick that
  goes round.\<close>

definition entry_calls :: "phases \<Rightarrow> GCPKubernetesCluster \<Rightarrow> call list" where
  "entry_calls K obj =
     [ClientGet,
      GetCluster (Zone (Spec obj)) (ClusterName (Spec obj)),
      LoggerInfo ''gcpkubernetescluster not found, creating cluster...'',
      CreateCluster (Zone (Spec obj)) (ClusterName (Spec obj)) (InitialNodeCount (Spec obj)),
      Event ''Normal'' ''ClusterCreation'' ''GCP Kubernetes Cluster creating'',
      LoggerInfo ''GCP Kubernetes Cluster creating'',
      StatusUpdate (ClusterStatusProvisioning K)]"

definition tick_calls :: "phases \<Rightarrow> GCPKubernetesCluster \<Rightarrow> call list" where
  "tick_calls K obj =
     [GetCluster (Zone (Spec obj)) (ClusterName (Spec obj)),
      Event ''Normal'' ''ClusterProvisioning'' ''GCP Kubernetes Cluster provisioning'',
      StatusUpdate (ClusterStatusProvisioning K)]"

text \<open>The calls of the tick that ends the loop on provider status \<open>st\<close>, after
  those every tick makes.\<close>

definition final_calls :: "phases \<Rightarrow> string \<Rightarrow> call list" where
  "final_calls K st =
     (if st = ClusterStatusRunning K
      then [Event ''Normal'' ''ClusterRunning'' ''GCP Kubernetes Cluster running'',
            LoggerInfo ''GCP Kubernetes Cluster running'',
            StatusUpdate (ClusterStatusRunning K)]
      else [Event ''Warning'' ''ClusterNotRunning''
              (''GCP Kubernetes Cluster status is not running: '' @ st),
            LoggerInfo ''GCP Kubernetes Cluster not running'',
            StatusUpdate (ClusterStatusError K)])"

text \<open>The state in which the loop waits for the \<open>(n + 1)\<close>-th time, after \<open>n\<close> ticks
  that went round; \<open>waiting K obj 0\<close> is the state in which the loop is entered.\<close>

definition waiting :: "phases \<Rightarrow> GCPKubernetesCluster \<Rightarrow> nat \<Rightarrow> state" where
  "waiting K obj n =
     \<lparr>gkcCR = obj\<lparr>Phase := ClusterStatusProvisioning K\<rparr>,
      persisted = replicate (Suc n) (ClusterStatusProvisioning K),
      calls = entry_calls K obj @ concat (replicate n (tick_calls K obj)),
      gets = Suc n, updates = Suc n, selects = n\<rparr>"

section \<open>Concrete runs\<close>

text \<open>
  The status strings of the provider's API stand for the five constants; the
  resource is the one of the spec's scenarios.
\<close>

definition K_gcp :: phases where
  "K_gcp = \<lparr>ClusterStatusUnspecified = ''STATUS_UNSPECIFIED'',
     ClusterStatusProvisioning = ''PROVISIONING'',
     ClusterStatusRunning = ''RUNNING'',
     ClusterStatusDegraded = ''DEGRADED'',
     ClusterStatusError = ''ERROR''\<rparr>"

definition demo :: GCPKubernetesCluster where
  "demo = \<lparr>Name = ''demo'',
     Spec = \<lparr>Zone = ''us-central1-a'', ClusterName = ''demo'', InitialNodeCount = 3\<rparr>,
     Phase = []\<rparr>"

definition demo_cluster :: "string \<Rightarrow> Cluster" where
  "demo_cluster st = \<lparr>cl_Name = ''demo'', cl_InitialNodeCount = 3, cl_Status = st\<rparr>"

definition err_404 :: go_error where
  "err_404 = \<lparr>message = ''googleapi: Error 404: Not found: demo, notFound'',
     is_k8s_not_found = False\<rparr>"

definition err_403 :: go_error where
  "err_403 = \<lparr>message = ''googleapi: Error 403: Insufficient quota, quotaExceeded'',
     is_k8s_not_found = False\<rparr>"

definition err_deadline :: go_error where
  "err_deadline = \<lparr>message = ''context deadline exceeded'', is_k8s_not_found = False\<rparr>"

definition err_canceled :: go_error where
  "err_canceled = \<lparr>message = ''context canceled'', is_k8s_not_found = False\<rparr>"

definition err_conflict :: go_error where
  "err_conflict = \<lparr>message = ''the object has been modified'', is_k8s_not_found = False\<rparr>"

definition err_store_not_found :: go_error where
  "err_store_not_found = \<lparr>message = ''gcpkubernetesclusters demo not found'',
     is_k8s_not_found = True\<rparr>"

text \<open>The resource is gone from the store.\<close>

definition env_gone :: env where
  "env_gone = \<lparr>store_get = Inl err_store_not_found,
     gcp_get = (\<lambda>n. Inl err_404),
     gcp_create = Inr ''operation-1'',
     status_update = (\<lambda>n. None),
     select = (\<lambda>n. TickerC)\<rparr>"

text \<open>The cluster is absent, is created, and is \<open>RUNNING\<close> at the first tick.\<close>

definition env_running :: env where
  "env_running = \<lparr>store_get = Inr demo,
     gcp_get = (\<lambda>n. if n = 0 then Inl err_404 else Inr (demo_cluster ''RUNNING'')),
     gcp_create = Inr ''operation-1'',
     status_update = (\<lambda>n. None),
     select = (\<lambda>n. TickerC)\<rparr>"

text \<open>The same, but the write of \<open>Running\<close> (the third status write) is refused.\<close>

definition env_running_refused :: env where
  "env_running_refused =
     env_running\<lparr>status_update := (\<lambda>n. if n = 2 then Some err_conflict else None)\<rparr>"

text \<open>The cluster is absent, is created, is \<open>PROVISIONING\<close> at two ticks and
  \<open>DEGRADED\<close> at the third.\<close>

definition env_degraded :: env where
  "env_degraded = \<lparr>store_get = Inr demo,
     gcp_get = (\<lambda>n. if n = 0 then Inl err_404
                     else if n < 3 then Inr (demo_cluster ''PROVISIONING'')
                     else Inr (demo_cluster ''DEGRADED'')),
     gcp_create = Inr ''operation-1'',
     status_update = (\<lambda>n. None),
     select = (\<lambda>n. TickerC)\<rparr>"

text \<open>The cluster is absent, is created, is \<open>PROVISIONING\<close> at one tick; the
  invocation is cancelled during the second wait.\<close>

definition env_cancelled :: env where
  "env_cancelled = \<lparr>store_get = Inr demo,
     gcp_get = (\<lambda>n. if n = 0 then Inl err_404 else Inr (demo_cluster ''PROVISIONING'')),
     gcp_create = Inr ''operation-1'',
     status_update = (\<lambda>n. None),
     select = (\<lambda>n. if n = 0 then TickerC else CtxDone err_canceled)\<rparr>"


text \<open>The cluster exists, and the provider reports it in \<open>ERROR\<close>.\<close>

definition env_found :: env where
  "env_found = \<lparr>store_get = Inr demo,
     gcp_get = (\<lambda>n. Inr (demo_cluster ''ERROR'')),
     gcp_create = Inr ''operation-1'',
     status_update = (\<lambda>n. None),
     select = (\<lambda>n. TickerC)\<rparr>"

text \<open>The same, but the status write is refused.\<close>

definition env_found_refused :: env where
  "env_found_refused = env_found\<lparr>status_update := (\<lambda>n. Some err_conflict)\<rparr>"

text \<open>The first query fails with an error whose text has no colon.\<close>

definition env_deadline :: env where
  "env_deadline = \<lparr>store_get = Inr demo,
     gcp_get = (\<lambda>n. Inl err_deadline),
     gcp_create = Inr ''operation-1'',
     status_update = (\<lambda>n. None),
     select = (\<lambda>n. TickerC)\<rparr>"

text \<open>The first query fails with a provider error other than not-found.\<close>

definition env_forbidden :: env where
  "env_forbidden = \<lparr>store_get = Inr demo,
     gcp_get = (\<lambda>n. Inl err_403),
     gcp_create = Inr ''operation-1'',
     status_update = (\<lambda>n. None),
     select = (\<lambda>n. TickerC)\<rparr>"

text \<open>The cluster is absent, is created, is \<open>PROVISIONING\<close> at one tick; the query
  of the second tick fails.\<close>

definition env_poll_fails :: env where
  "env_poll_fails = \<lparr>store_get = Inr demo,
     gcp_get = (\<lambda>n. if n = 0 then Inl err_404
                     else if n = 1 then Inr (demo_cluster ''PROVISIONING'')
                     else Inl err_deadline),
     gcp_create = Inr ''operation-1'',
     status_update = (\<lambda>n. None),
     select = (\<lambda>n. TickerC)\<rparr>"

text \<open>The cluster is absent, is created, is \<open>PROVISIONING\<close> at the first tick and
  \<open>RUNNING\<close> at the second.\<close>

definition env_running_late :: env where
  "env_running_late = \<lparr>store_get = Inr demo,
     gcp_get = (\<lambda>n. if n = 0 then Inl err_404
                     else if n = 1 then Inr (demo_cluster ''PROVISIONING'')
                     else Inr (demo_cluster ''RUNNING'')),
     gcp_create = Inr ''operation-1'',
     status_update = (\<lambda>n. None),
     select = (\<lambda>n. TickerC)\<rparr>"


text \<open>The cluster is absent and is created, \<open>RUNNING\<close> at the first tick, but the
  status write of that tick before the status is inspected (the second status
  write) is refused.\<close>

definition env_refresh_refused :: env where
  "env_refresh_refused =
     env_running\<lparr>status_update := (\<lambda>n. if n = 1 then Some err_conflict else None)\<rparr>"

section \<open>Lemmas on the classifier\<close>

lemma strings_Split_not_Nil: "strings_Split s sep \<noteq> []"
  by (induction s) (auto split: list.splits)

lemma strings_Split_no_sep: "sep \<notin> set s \<Longrightarrow> strings_Split s sep = [s]"
  by (induction s) auto

lemma length_strings_Split: "length (strings_Split s sep) = Suc (count_list s sep)"
  by (induction s) (auto split: list.splits simp: strings_Split_not_Nil)

lemma strings_Split_pieces: "1 < length (strings_Split s sep) \<longleftrightarrow> sep \<in> set s"
  using count_list_0_iff [of s sep] by (auto simp: length_strings_Split)

lemma notFoundGCPResource_no_colon:
  "CHR '':'' \<notin> set (message err) \<Longrightarrow> notFoundGCPResource (Some err) = Inl (IndexOutOfRange 1 1)"
  by (simp add: notFoundGCPResource_def Sprintf_v_def strings_Split_no_sep)

lemma notFoundGCPResource_colon:
  "CHR '':'' \<in> set (message err) \<Longrightarrow>
     notFoundGCPResource (Some err) = Inr (strings_Split (message err) (CHR '':'') ! 1 = '' Error 404'')"
  using strings_Split_pieces [of "message err" "CHR '':''"]
  by (simp add: notFoundGCPResource_def Sprintf_v_def Let_def)

text \<open>The classifier answers exactly the textual shape whenever the text has a
  colon; without one it panics, and the shape needs one.\<close>

lemma classifier_matches_shape:
  assumes "CHR '':'' \<in> set (message err)"
  shows "notFoundGCPResource (Some err) = Inr (not_found_shape (message err))"
proof -
  from assms have "1 < length (strings_Split (message err) (CHR '':''))"
    by (simp only: strings_Split_pieces)
  then obtain a b rest where sp: "strings_Split (message err) (CHR '':'') = a # b # rest"
    by (cases "strings_Split (message err) (CHR '':'')" rule: list.exhaust;
        cases "tl (strings_Split (message err) (CHR '':''))") auto
  with assms show ?thesis
    by (simp add: notFoundGCPResource_colon not_found_shape_def)
qed

lemma not_found_shape_has_colon: "not_found_shape msg \<Longrightarrow> CHR '':'' \<in> set msg"
proof (rule ccontr)
  assume "not_found_shape msg" and "CHR '':'' \<notin> set msg"
  then show False by (simp add: not_found_shape_def strings_Split_no_sep)
qed

lemma classifier_true_iff_shape:
  "notFoundGCPResource (Some err) = Inr True \<longleftrightarrow> not_found_shape (message err)"
proof (cases "CHR '':'' \<in> set (message err)")
  case True
  then show ?thesis by (simp add: classifier_matches_shape)
next
  case False
  then show ?thesis
    using not_found_shape_has_colon [of "message err"]
    by (auto simp: notFoundGCPResource_no_colon)
qed

section \<open>Lemmas on the collaborators' calls\<close>

lemmas effect_defs = record_call_def logger_Info_def logger_Error_def emit_Event_def
  call_GetCluster_def call_CreateCluster_def call_StatusUpdate_def updateStatus_def

lemma record_call_fields:
  "gkcCR (record_call c s) = gkcCR s" "persisted (record_call c s) = persisted s"
  "calls (record_call c s) = calls s @ [c]" "gets (record_call c s) = gets s"
  "updates (record_call c s) = updates s" "selects (record_call c s) = selects s"
  by (simp_all add: record_call_def)

lemma logger_fields:
  "gkcCR (logger_Info m s) = gkcCR s" "persisted (logger_Info m s) = persisted s"
  "calls (logger_Info m s) = calls s @ [LoggerInfo m]" "gets (logger_Info m s) = gets s"
  "updates (logger_Info m s) = updates s" "selects (logger_Info m s) = selects s"
  "gkcCR (logger_Error m s) = gkcCR s" "persisted (logger_Error m s) = persisted s"
  "calls (logger_Error m s) = calls s @ [LoggerError m]" "gets (logger_Error m s) = gets s"
  "updates (logger_Error m s) = updates s" "selects (logger_Error m s) = selects s"
  by (simp_all add: logger_Info_def logger_Error_def record_call_fields)

lemma emit_Event_fields:
  "gkcCR (emit_Event t r m s) = gkcCR s" "persisted (emit_Event t r m s) = persisted s"
  "calls (emit_Event t r m s) = calls s @ [Event t r m]" "gets (emit_Event t r m s) = gets s"
  "updates (emit_Event t r m s) = updates s" "selects (emit_Event t r m s) = selects s"
  by (simp_all add: emit_Event_def record_call_fields)

lemma updateStatus_fields:
  "gkcCR (updateStatus l cs m s) = (gkcCR s)\<lparr>Phase := cs\<rparr>"
  "persisted (updateStatus l cs m s) = persisted s"
  "calls (updateStatus l cs m s) = (if l then calls s @ [LoggerInfo m] else calls s)"
  "gets (updateStatus l cs m s) = gets s"
  "updates (updateStatus l cs m s) = updates s" "selects (updateStatus l cs m s) = selects s"
  by (simp_all add: updateStatus_def logger_fields Let_def)

lemma call_GetCluster_fields:
  "fst (call_GetCluster e z n s) = gcp_get e (gets s)"
  "gkcCR (snd (call_GetCluster e z n s)) = gkcCR s"
  "persisted (snd (call_GetCluster e z n s)) = persisted s"
  "calls (snd (call_GetCluster e z n s)) = calls s @ [GetCluster z n]"
  "gets (snd (call_GetCluster e z n s)) = Suc (gets s)"
  "updates (snd (call_GetCluster e z n s)) = updates s"
  "selects (snd (call_GetCluster e z n s)) = selects s"
  by (simp_all add: call_GetCluster_def record_call_fields)

lemma call_CreateCluster_fields:
  "fst (call_CreateCluster e z c s) = gcp_create e"
  "gkcCR (snd (call_CreateCluster e z c s)) = gkcCR s"
  "persisted (snd (call_CreateCluster e z c s)) = persisted s"
  "calls (snd (call_CreateCluster e z c s)) =
     calls s @ [CreateCluster z (cl_Name c) (cl_InitialNodeCount c)]"
  "gets (snd (call_CreateCluster e z c s)) = gets s"
  "updates (snd (call_CreateCluster e z c s)) = updates s"
  "selects (snd (call_CreateCluster e z c s)) = selects s"
  by (simp_all add: call_CreateCluster_def record_call_fields)

lemma call_StatusUpdate_fields:
  "fst (call_StatusUpdate e s) = status_update e (updates s)"
  "gkcCR (snd (call_StatusUpdate e s)) = gkcCR s"
  "persisted (snd (call_StatusUpdate e s)) =
     (if status_update e (updates s) = None then persisted s @ [Phase (gkcCR s)] else persisted s)"
  "calls (snd (call_StatusUpdate e s)) = calls s @ [StatusUpdate (Phase (gkcCR s))]"
  "gets (snd (call_StatusUpdate e s)) = gets s"
  "updates (snd (call_StatusUpdate e s)) = Suc (updates s)"
  "selects (snd (call_StatusUpdate e s)) = selects s"
  by (simp_all add: call_StatusUpdate_def record_call_fields Let_def)

lemmas effect_fields = record_call_fields logger_fields emit_Event_fields updateStatus_fields
  call_GetCluster_fields call_CreateCluster_fields call_StatusUpdate_fields

lemma concat_replicate_snoc: "concat (replicate n xs) @ xs = xs @ concat (replicate n xs)"
  by (induction n) auto

lemma create_calls_append: "create_calls (xs @ ys) = create_calls xs @ create_calls ys"
  by (induction xs rule: create_calls.induct) auto

lemma status_calls_append: "status_calls (xs @ ys) = status_calls xs @ status_calls ys"
  by (induction xs rule: status_calls.induct) auto

lemma event_calls_append: "event_calls (xs @ ys) = event_calls xs @ event_calls ys"
  by (induction xs rule: event_calls.induct) auto

lemma status_calls_ticks:
  "status_calls (concat (replicate n (tick_calls K obj))) = replicate n (ClusterStatusProvisioning K)"
  by (induction n) (auto simp: tick_calls_def)

lemma create_calls_ticks: "create_calls (concat (replicate n (tick_calls K obj))) = []"
  by (induction n) (auto simp: tick_calls_def)

lemma status_calls_waiting:
  "status_calls (calls (waiting K obj n)) = replicate (Suc n) (ClusterStatusProvisioning K)"
  by (simp add: waiting_def status_calls_append status_calls_ticks entry_calls_def)

lemma create_calls_waiting:
  "create_calls (calls (waiting K obj n)) =
     [(Zone (Spec obj), ClusterName (Spec obj), InitialNodeCount (Spec obj))]"
  by (simp add: waiting_def create_calls_append create_calls_ticks entry_calls_def)

lemma event_calls_ticks:
  "event_calls (concat (replicate n (tick_calls K obj))) =
     replicate n (''Normal'', ''ClusterProvisioning'', ''GCP Kubernetes Cluster provisioning'')"
  by (induction n) (auto simp: tick_calls_def)

lemma status_calls_tick: "status_calls (tick_calls K obj) = [ClusterStatusProvisioning K]"
  by (simp add: tick_calls_def)

lemma status_calls_final:
  "status_calls (final_calls K st) = [final_phase K st]"
  by (simp add: final_calls_def final_phase_def)

lemma event_calls_waiting:
  "event_calls (calls (waiting K obj n)) =
     (''Normal'', ''ClusterCreation'', ''GCP Kubernetes Cluster creating'')
       # replicate n (''Normal'', ''ClusterProvisioning'', ''GCP Kubernetes Cluster provisioning'')"
  by (simp add: waiting_def event_calls_append event_calls_ticks entry_calls_def)

section \<open>Lemmas on the loop\<close>

lemma fst_poll_body:
  "fst (poll_body K e s) =
     (case select e (selects s) of
        CtxDone cerr \<Rightarrow> Some (Return zero_Result (Some cerr))
      | TickerC \<Rightarrow>
          (case gcp_get e (gets s) of
             Inl err \<Rightarrow> Some (Return zero_Result (Some err))
           | Inr c \<Rightarrow>
               (case status_update e (updates s) of
                  Some err \<Rightarrow> Some (Return zero_Result (Some err))
                | None \<Rightarrow>
                    if terminal_status K (cl_Status c)
                    then (case status_update e (Suc (updates s)) of
                            Some err \<Rightarrow> Some (Return zero_Result (Some err))
                          | None \<Rightarrow> Some (Return zero_Result None))
                    else None)))"
  by (simp add: poll_body_def Let_def case_prod_beta effect_fields terminal_status_def
        split: select_case.splits sum.splits option.splits)

lemma poll_body_cancel:
  assumes "select e (selects s) = CtxDone cerr"
  shows "poll_body K e s = (Some (Return zero_Result (Some cerr)), s\<lparr>selects := Suc (selects s)\<rparr>)"
  using assms by (simp add: poll_body_def)

lemma poll_body_query_error:
  assumes "select e (selects s) = TickerC" and "gcp_get e (gets s) = Inl err"
  shows "poll_body K e s =
           (Some (Return zero_Result (Some err)),
            s\<lparr>calls := calls s @ [GetCluster (Zone (Spec (gkcCR s))) (ClusterName (Spec (gkcCR s))),
                                  LoggerError ''error verifying cluster status''],
              gets := Suc (gets s), selects := Suc (selects s)\<rparr>)"
  using assms by (simp add: poll_body_def effect_defs)




lemma poll_body_zero_Result:
  "fst (poll_body K e s) = Some (Return r err) \<Longrightarrow> r = zero_Result"
  by (simp add: fst_poll_body split: select_case.splits sum.splits option.splits if_splits)

lemma poll_loop_zero_Result:
  "fst (poll_loop fuel K e s) = Some (Return r err) \<Longrightarrow> r = zero_Result"
proof (induction fuel arbitrary: s)
  case 0
  then show ?case by simp
next
  case (Suc fuel)
  show ?case
  proof (cases "poll_body K e s")
    case (Pair x s')
    show ?thesis
    proof (cases x)
      case None
      with Pair Suc.prems have "fst (poll_loop fuel K e s') = Some (Return r err)" by simp
      then show ?thesis by (rule Suc.IH)
    next
      case (Some out)
      with Pair Suc.prems have "fst (poll_body K e s) = Some (Return r err)" by simp
      then show ?thesis by (rule poll_body_zero_Result)
    qed
  qed
qed

lemma poll_body_terminal:
  assumes "select e n = TickerC" and "gcp_get e (Suc n) = Inr c"
      and "terminal_status K (cl_Status c)"
      and "status_update e (Suc n) = None" and "status_update e (Suc (Suc n)) = None"
  shows "poll_body K e (waiting K obj n) =
           (Some (Return zero_Result None),
            \<lparr>gkcCR = obj\<lparr>Phase := final_phase K (cl_Status c)\<rparr>,
             persisted = replicate (Suc (Suc n)) (ClusterStatusProvisioning K)
                           @ [final_phase K (cl_Status c)],
             calls = calls (waiting K obj n) @ tick_calls K obj @ final_calls K (cl_Status c),
             gets = Suc (Suc n), updates = Suc (Suc (Suc n)), selects = Suc n\<rparr>)"
proof (cases "cl_Status c = ClusterStatusRunning K")
  case True
  with assms show ?thesis
    by (simp add: poll_body_def effect_defs waiting_def tick_calls_def final_calls_def
          final_phase_def replicate_append_same Let_def)
next
  case False
  with assms have "cl_Status c = ClusterStatusError K \<or> cl_Status c = ClusterStatusDegraded K
      \<or> cl_Status c = ClusterStatusUnspecified K"
    by (simp add: terminal_status_def)
  with False assms(1,2,4,5) show ?thesis
    by (simp add: poll_body_def effect_defs waiting_def tick_calls_def final_calls_def
          final_phase_def replicate_append_same Let_def)
qed

text \<open>The same tick when a status write is refused: the one every tick makes,
  or the one of the final phase.\<close>

lemma poll_body_refresh_refused:
  assumes "select e n = TickerC" and "gcp_get e (Suc n) = Inr c"
      and "status_update e (Suc n) = Some uerr"
  shows "poll_body K e (waiting K obj n) =
           (Some (Return zero_Result (Some uerr)),
            \<lparr>gkcCR = obj\<lparr>Phase := ClusterStatusProvisioning K\<rparr>,
             persisted = replicate (Suc n) (ClusterStatusProvisioning K),
             calls = calls (waiting K obj n) @ tick_calls K obj
                       @ [LoggerError ''error updating gcpkubernetescluster status''],
             gets = Suc (Suc n), updates = Suc (Suc n), selects = Suc n\<rparr>)"
  using assms
  by (simp add: poll_body_def effect_defs waiting_def tick_calls_def Let_def)

lemma poll_body_final_refused:
  assumes "select e n = TickerC" and "gcp_get e (Suc n) = Inr c"
      and "terminal_status K (cl_Status c)"
      and "status_update e (Suc n) = None" and "status_update e (Suc (Suc n)) = Some uerr"
  shows "poll_body K e (waiting K obj n) =
           (Some (Return zero_Result (Some uerr)),
            \<lparr>gkcCR = obj\<lparr>Phase := final_phase K (cl_Status c)\<rparr>,
             persisted = replicate (Suc (Suc n)) (ClusterStatusProvisioning K),
             calls = calls (waiting K obj n) @ tick_calls K obj @ final_calls K (cl_Status c)
                       @ [LoggerError ''error updating gcpkubernetescluster status''],
             gets = Suc (Suc n), updates = Suc (Suc (Suc n)), selects = Suc n\<rparr>)"
proof (cases "cl_Status c = ClusterStatusRunning K")
  case True
  with assms show ?thesis
    by (simp add: poll_body_def effect_defs waiting_def tick_calls_def final_calls_def
          final_phase_def replicate_append_same Let_def)
next
  case False
  with assms have "cl_Status c = ClusterStatusError K \<or> cl_Status c = ClusterStatusDegraded K
      \<or> cl_Status c = ClusterStatusUnspecified K"
    by (simp add: terminal_status_def)
  with False assms(1,2,4,5) show ?thesis
    by (simp add: poll_body_def effect_defs waiting_def tick_calls_def final_calls_def
          final_phase_def replicate_append_same Let_def)
qed

lemma Reconcile_enters_loop:
  assumes "store_get e = Inr obj" and "gcp_get e 0 = Inl err"
      and "notFoundGCPResource (Some err) = Inr True"
      and "gcp_create e = Inr op" and "status_update e 0 = None"
  shows "Reconcile fuel K e = poll_loop fuel K e (waiting K obj 0)"
  using assms
  by (simp add: Reconcile_def create_branch_def effect_defs init_state_def waiting_def
        entry_calls_def Let_def)

lemma continuesD:
  assumes "continues K e n"
  obtains c where "select e n = TickerC" and "gcp_get e (Suc n) = Inr c"
    and "cl_Status c \<noteq> ClusterStatusRunning K" and "cl_Status c \<noteq> ClusterStatusError K"
    and "cl_Status c \<noteq> ClusterStatusDegraded K" and "cl_Status c \<noteq> ClusterStatusUnspecified K"
    and "status_update e (Suc n) = None"
  using assms by (auto simp: continues_def terminal_status_def split: sum.splits)

lemma poll_body_continues:
  assumes "continues K e n"
  shows "poll_body K e (waiting K obj n) = (None, waiting K obj (Suc n))"
proof -
  from assms obtain c where h: "select e n = TickerC" "gcp_get e (Suc n) = Inr c"
    "cl_Status c \<noteq> ClusterStatusRunning K" "cl_Status c \<noteq> ClusterStatusError K"
    "cl_Status c \<noteq> ClusterStatusDegraded K" "cl_Status c \<noteq> ClusterStatusUnspecified K"
    "status_update e (Suc n) = None"
    by (rule continuesD)
  show ?thesis
    using h
    by (simp add: poll_body_def effect_defs waiting_def tick_calls_def concat_replicate_snoc
          replicate_append_same Let_def)
qed

lemma poll_loop_continues:
  "(\<forall>i<n. continues K e (k + i)) \<Longrightarrow>
     poll_loop (n + f) K e (waiting K obj k) = poll_loop f K e (waiting K obj (k + n))"
proof (induction n arbitrary: k)
  case 0
  then show ?case by simp
next
  case (Suc n)
  from Suc.prems have "continues K e k" by force
  then have step: "poll_loop (Suc n + f) K e (waiting K obj k)
      = poll_loop (n + f) K e (waiting K obj (Suc k))"
    by (simp add: poll_body_continues)
  from Suc.prems have "\<forall>i<n. continues K e (Suc k + i)" by force
  then have "poll_loop (n + f) K e (waiting K obj (Suc k))
      = poll_loop f K e (waiting K obj (Suc k + n))"
    by (rule Suc.IH)
  with step show ?case by simp
qed

lemma Reconcile_reaches_wait:
  assumes "store_get e = Inr obj" and "gcp_get e 0 = Inl err"
      and "notFoundGCPResource (Some err) = Inr True"
      and "gcp_create e = Inr op" and "status_update e 0 = None"
      and "\<forall>i<n. continues K e i"
  shows "Reconcile (n + f) K e = poll_loop f K e (waiting K obj n)"
proof -
  have "Reconcile (n + f) K e = poll_loop (n + f) K e (waiting K obj 0)"
    using assms(1-5) by (rule Reconcile_enters_loop)
  also have "\<dots> = poll_loop f K e (waiting K obj (0 + n))"
    using assms(6) by (intro poll_loop_continues) simp
  finally show ?thesis by simp
qed

section \<open>Lemmas on the paths of \<open>Reconcile\<close>\<close>

lemma err_404_classified: "notFoundGCPResource (Some err_404) = Inr True"
  by (simp add: notFoundGCPResource_def Sprintf_v_def err_404_def)

lemma err_403_classified: "notFoundGCPResource (Some err_403) = Inr False"
  by (simp add: notFoundGCPResource_def Sprintf_v_def err_403_def)

lemma Reconcile_store_error:
  assumes "store_get e = Inl err"
  shows "Reconcile fuel K e =
           (if is_k8s_not_found err
            then (Some (Return zero_Result None),
                  init_state\<lparr>calls := [ClientGet, LoggerInfo ''gcpkubernetescluster not found'']\<rparr>)
            else (Some (Return zero_Result (Some err)), init_state\<lparr>calls := [ClientGet]\<rparr>))"
  using assms by (simp add: Reconcile_def effect_defs init_state_def)

lemma Reconcile_classifier_panics:
  assumes "store_get e = Inr obj" and "gcp_get e 0 = Inl err"
      and "notFoundGCPResource (Some err) = Inl p"
  shows "Reconcile fuel K e =
           (Some (Panicked p),
            \<lparr>gkcCR = obj, persisted = [],
             calls = [ClientGet, GetCluster (Zone (Spec obj)) (ClusterName (Spec obj))],
             gets = 1, updates = 0, selects = 0\<rparr>)"
  using assms by (simp add: Reconcile_def effect_defs init_state_def)

lemma Reconcile_other_query_error:
  assumes "store_get e = Inr obj" and "gcp_get e 0 = Inl err"
      and "notFoundGCPResource (Some err) = Inr False"
  shows "Reconcile fuel K e =
           (Some (Return zero_Result (Some err)),
            \<lparr>gkcCR = obj, persisted = [],
             calls = [ClientGet, GetCluster (Zone (Spec obj)) (ClusterName (Spec obj)),
                      LoggerError ''error getting gcpkubernetescluster''],
             gets = 1, updates = 0, selects = 0\<rparr>)"
  using assms by (simp add: Reconcile_def effect_defs init_state_def)

lemma Reconcile_create_refused:
  assumes "store_get e = Inr obj" and "gcp_get e 0 = Inl err"
      and "notFoundGCPResource (Some err) = Inr True" and "gcp_create e = Inl cerr"
  shows "Reconcile fuel K e =
           (Some (Return zero_Result (Some cerr)),
            \<lparr>gkcCR = obj, persisted = [],
             calls = [ClientGet, GetCluster (Zone (Spec obj)) (ClusterName (Spec obj)),
                      LoggerInfo ''gcpkubernetescluster not found, creating cluster...'',
                      CreateCluster (Zone (Spec obj)) (ClusterName (Spec obj))
                        (InitialNodeCount (Spec obj)),
                      LoggerError ''error creating gcpkubernetescluster''],
             gets = 1, updates = 0, selects = 0\<rparr>)"
  using assms by (simp add: Reconcile_def create_branch_def effect_defs init_state_def)

lemma Reconcile_entry_write_refused:
  assumes "store_get e = Inr obj" and "gcp_get e 0 = Inl err"
      and "notFoundGCPResource (Some err) = Inr True" and "gcp_create e = Inr op"
      and "status_update e 0 = Some uerr"
  shows "Reconcile fuel K e =
           (Some (Return zero_Result (Some uerr)),
            \<lparr>gkcCR = obj\<lparr>Phase := ClusterStatusProvisioning K\<rparr>, persisted = [],
             calls = entry_calls K obj
                       @ [LoggerError ''error updating gcpkubernetescluster status''],
             gets = 1, updates = 1, selects = 0\<rparr>)"
  using assms
  by (simp add: Reconcile_def create_branch_def effect_defs init_state_def entry_calls_def Let_def)

lemma Reconcile_detect_written:
  assumes "store_get e = Inr obj" and "gcp_get e 0 = Inr gkc" and "status_update e 0 = None"
  shows "Reconcile fuel K e =
           (Some (Return \<lparr>Requeue = False, RequeueAfter = Second * 60\<rparr> None),
            \<lparr>gkcCR = obj\<lparr>Phase := ClusterStatusRunning K\<rparr>,
             persisted = [ClusterStatusRunning K],
             calls = [ClientGet, GetCluster (Zone (Spec obj)) (ClusterName (Spec obj)),
                      Event ''Normal'' ''ClusterDetection'' ''GCP Kubernetes Cluster found'',
                      LoggerInfo ''GCP Kubernetes Cluster found'',
                      StatusUpdate (ClusterStatusRunning K),
                      LoggerInfo ''gcpkubernetescluster found, synchronizing...'',
                      LoggerInfo ''gcp kubernetes cluster reconciled''],
             gets = 1, updates = 1, selects = 0\<rparr>)"
  using assms
  by (simp add: Reconcile_def detect_branch_def effect_defs init_state_def Let_def)

lemma Reconcile_detect_refused:
  assumes "store_get e = Inr obj" and "gcp_get e 0 = Inr gkc" and "status_update e 0 = Some uerr"
  shows "Reconcile fuel K e =
           (Some (Return zero_Result (Some uerr)),
            \<lparr>gkcCR = obj\<lparr>Phase := ClusterStatusRunning K\<rparr>,
             persisted = [],
             calls = [ClientGet, GetCluster (Zone (Spec obj)) (ClusterName (Spec obj)),
                      Event ''Normal'' ''ClusterDetection'' ''GCP Kubernetes Cluster found'',
                      LoggerInfo ''GCP Kubernetes Cluster found'',
                      StatusUpdate (ClusterStatusRunning K),
                      LoggerError ''error updating gcpkubernetescluster status''],
             gets = 1, updates = 1, selects = 0\<rparr>)"
  using assms
  by (simp add: Reconcile_def detect_branch_def effect_defs init_state_def Let_def)

lemma sixty_seconds_not_zero:
  "\<lparr>Requeue = False, RequeueAfter = Second * 60\<rparr> \<noteq> zero_Result"
  by (simp add: zero_Result_def Second_def)

text \<open>Every return of \<open>Reconcile\<close> carries the zero result, but the one of the
  detection path after a successful status write.\<close>

lemma Reconcile_returns:
  assumes "fst (Reconcile fuel K e) = Some (Return r err)"
  shows "r = zero_Result
       \<or> (r = \<lparr>Requeue = False, RequeueAfter = Second * 60\<rparr> \<and> err = None
          \<and> (\<exists>obj gkc. store_get e = Inr obj \<and> gcp_get e 0 = Inr gkc)
          \<and> status_update e 0 = None)"
proof (cases "store_get e")
  case (Inl serr)
  with assms show ?thesis by (simp add: Reconcile_store_error split: if_splits)
next
  case obj: (Inr obj)
  show ?thesis
  proof (cases "gcp_get e 0")
    case (Inr gkc)
    show ?thesis
    proof (cases "status_update e 0")
      case None
      with assms obj Inr show ?thesis by (simp add: Reconcile_detect_written)
    next
      case (Some uerr)
      with assms obj Inr show ?thesis by (simp add: Reconcile_detect_refused)
    qed
  next
    case q: (Inl qerr)
    show ?thesis
    proof (cases "notFoundGCPResource (Some qerr)")
      case (Inl p)
      with assms obj q show ?thesis by (simp add: Reconcile_classifier_panics)
    next
      case (Inr nf)
      show ?thesis
      proof (cases nf)
        case False
        with assms obj q Inr show ?thesis by (simp add: Reconcile_other_query_error)
      next
        case True
        show ?thesis
        proof (cases "gcp_create e")
          case c: (Inl cerr)
          with assms obj q Inr True show ?thesis by (simp add: Reconcile_create_refused)
        next
          case c: (Inr op)
          show ?thesis
          proof (cases "status_update e 0")
            case (Some uerr)
            with assms obj q Inr True c show ?thesis
              by (simp add: Reconcile_entry_write_refused)
          next
            case None
            with obj q Inr True c
            have "Reconcile fuel K e = poll_loop fuel K e (waiting K obj 0)"
              by (simp add: Reconcile_enters_loop)
            with assms have "fst (poll_loop fuel K e (waiting K obj 0)) = Some (Return r err)"
              by simp
            then have "r = zero_Result" by (rule poll_loop_zero_Result)
            then show ?thesis by simp
          qed
        qed
      qed
    qed
  qed
qed

text \<open>Without the textual shape the creation branch is not taken: no create call
  is made, whether the classifier answers false or panics.\<close>

lemma no_creation_without_shape:
  assumes "\<not> not_found_shape (message err)"
      and "store_get e = Inr obj" and "gcp_get e 0 = Inl err"
  shows "create_calls (calls (snd (Reconcile fuel K e))) = []"
proof (cases "CHR '':'' \<in> set (message err)")
  case True
  with assms(1) have "notFoundGCPResource (Some err) = Inr False"
    by (simp add: classifier_matches_shape)
  with assms(2,3) show ?thesis by (simp add: Reconcile_other_query_error)
next
  case False
  then have "notFoundGCPResource (Some err) = Inl (IndexOutOfRange 1 1)"
    by (rule notFoundGCPResource_no_colon)
  with assms(2,3) show ?thesis by (simp add: Reconcile_classifier_panics)
qed

text \<open>A failing query is returned as it is, and writes nothing: the first query,
  when its text has a colon and not the not-found shape; the query of any tick.\<close>

lemma first_query_error_is_returned:
  assumes "store_get e = Inr obj" and "gcp_get e 0 = Inl qerr"
      and "CHR '':'' \<in> set (message qerr)" and "\<not> not_found_shape (message qerr)"
  shows "fst (Reconcile fuel K e) = Some (Return zero_Result (Some qerr))
       \<and> status_calls (calls (snd (Reconcile fuel K e))) = []
       \<and> persisted (snd (Reconcile fuel K e)) = []"
proof -
  from assms(3,4) have "notFoundGCPResource (Some qerr) = Inr False"
    by (simp add: classifier_matches_shape)
  with assms(1,2) show ?thesis by (simp add: Reconcile_other_query_error)
qed

lemma poll_query_error_is_returned:
  assumes "store_get e = Inr obj" and "gcp_get e 0 = Inl err"
      and "notFoundGCPResource (Some err) = Inr True"
      and "gcp_create e = Inr op" and "status_update e 0 = None"
      and "\<forall>i<n. continues K e i"
      and "select e n = TickerC" and "gcp_get e (Suc n) = Inl qerr"
  shows "fst (Reconcile (Suc n + f) K e) = Some (Return zero_Result (Some qerr))
       \<and> status_calls (calls (snd (Reconcile (Suc n + f) K e))) =
           status_calls (calls (waiting K obj n))
       \<and> persisted (snd (Reconcile (Suc n + f) K e)) = persisted (waiting K obj n)"
proof -
  have "Reconcile (n + Suc f) K e = poll_loop (Suc f) K e (waiting K obj n)"
    using assms(1-6) by (rule Reconcile_reaches_wait)
  moreover have "selects (waiting K obj n) = n" and "gets (waiting K obj n) = Suc n"
    by (simp_all add: waiting_def)
  ultimately show ?thesis
    using assms(7,8) by (simp add: poll_body_query_error status_calls_append)
qed

section \<open>The properties\<close>




text \<open>
  C2 (as amended). On the creation path, take any tick that the loop reaches
  (tick \<open>n\<close>, after \<open>n\<close> ticks that went round) and whose query answers a cluster.
  Each of the ticks before it added exactly one status write, of \<open>Provisioning\<close>:
  after \<open>k \<le> n\<close> ticks the run is not over and has made \<open>k + 1\<close> writes (one
  before the loop). Tick \<open>n\<close> makes one status write, of \<open>Provisioning\<close>, before it
  inspects the status. If that write is refused, \<open>Reconcile\<close> returns its error,
  having made no other write at this tick, and the store holds what it held. If
  it is accepted and the status is none of the four terminal ones, it is the
  only write of the tick and the loop waits again. If it is accepted and the
  status is terminal, the tick makes a second write, of the final phase, which
  is \<open>Running\<close> for status \<open>Running\<close> and \<open>Error\<close> for \<open>Error\<close>, \<open>Degraded\<close> and
  \<open>Unspecified\<close>: when the store accepts it, it holds every phase written, the
  final phase last, and \<open>Reconcile\<close> returns the zero result with no error; when
  the store refuses it, \<open>Reconcile\<close> returns the zero result with that error and
  \<open>Provisioning\<close> stays the last phase the store holds.
\<close>
theorem poll_loop_writes_per_tick:
  assumes "store_get e = Inr obj" and "gcp_get e 0 = Inl err"
      and "notFoundGCPResource (Some err) = Inr True"
      and "gcp_create e = Inr op" and "status_update e 0 = None"
      and "\<forall>i<n. continues K e i"
      and "select e n = TickerC" and "gcp_get e (Suc n) = Inr c"
  shows "(\<forall>k\<le>n. fst (Reconcile k K e) = None
            \<and> status_calls (calls (snd (Reconcile k K e))) =
                replicate (Suc k) (ClusterStatusProvisioning K))
       \<and> (\<forall>uerr. status_update e (Suc n) = Some uerr \<longrightarrow>
             fst (Reconcile (Suc n + f) K e) = Some (Return zero_Result (Some uerr))
           \<and> status_calls (calls (snd (Reconcile (Suc n + f) K e))) =
               replicate (Suc n) (ClusterStatusProvisioning K) @ [ClusterStatusProvisioning K]
           \<and> persisted (snd (Reconcile (Suc n + f) K e)) =
               replicate (Suc n) (ClusterStatusProvisioning K))
       \<and> (status_update e (Suc n) = None \<and> \<not> terminal_status K (cl_Status c) \<longrightarrow>
             fst (Reconcile (Suc n) K e) = None
           \<and> status_calls (calls (snd (Reconcile (Suc n) K e))) =
               replicate (Suc n) (ClusterStatusProvisioning K) @ [ClusterStatusProvisioning K]
           \<and> persisted (snd (Reconcile (Suc n) K e)) =
               status_calls (calls (snd (Reconcile (Suc n) K e))))
       \<and> (status_update e (Suc n) = None \<and> terminal_status K (cl_Status c) \<longrightarrow>
             status_calls (calls (snd (Reconcile (Suc n + f) K e))) =
               replicate (Suc n) (ClusterStatusProvisioning K)
                 @ [ClusterStatusProvisioning K, final_phase K (cl_Status c)]
           \<and> (status_update e (Suc (Suc n)) = None \<longrightarrow>
                 fst (Reconcile (Suc n + f) K e) = Some (Return zero_Result None)
               \<and> persisted (snd (Reconcile (Suc n + f) K e)) =
                   status_calls (calls (snd (Reconcile (Suc n + f) K e)))
               \<and> last (persisted (snd (Reconcile (Suc n + f) K e))) =
                   final_phase K (cl_Status c))
           \<and> (\<forall>uerr. status_update e (Suc (Suc n)) = Some uerr \<longrightarrow>
                 fst (Reconcile (Suc n + f) K e) = Some (Return zero_Result (Some uerr))
               \<and> persisted (snd (Reconcile (Suc n + f) K e)) =
                   replicate (Suc n) (ClusterStatusProvisioning K)
                     @ [ClusterStatusProvisioning K]
               \<and> last (persisted (snd (Reconcile (Suc n + f) K e))) =
                   ClusterStatusProvisioning K))"
proof -
  let ?P = "ClusterStatusProvisioning K"
  have at_wait: "Reconcile (m + g) K e = poll_loop g K e (waiting K obj m)"
    if "\<forall>i<m. continues K e i" for m g
    using assms(1-5) that by (rule Reconcile_reaches_wait)
  have snoc: "replicate (Suc (Suc n)) ?P = replicate (Suc n) ?P @ [?P]"
    by (simp add: replicate_append_same)
  have sc_tick: "status_calls (calls (waiting K obj n) @ tick_calls K obj @ cs) =
      replicate (Suc n) ?P @ ?P # status_calls cs" for cs
    by (simp add: status_calls_append status_calls_waiting status_calls_tick
          del: replicate_Suc)
  have A: "\<forall>k\<le>n. fst (Reconcile k K e) = None
      \<and> status_calls (calls (snd (Reconcile k K e))) = replicate (Suc k) ?P"
  proof (intro allI impI)
    fix k assume "k \<le> n"
    with assms(6) have "\<forall>i<k. continues K e i" by simp
    then have "Reconcile (k + 0) K e = poll_loop 0 K e (waiting K obj k)" by (rule at_wait)
    then show "fst (Reconcile k K e) = None
        \<and> status_calls (calls (snd (Reconcile k K e))) = replicate (Suc k) ?P"
      by (simp add: status_calls_waiting del: replicate_Suc)
  qed
  have run: "Reconcile (Suc n + f) K e = poll_loop (Suc f) K e (waiting K obj n)"
    using at_wait [OF assms(6), of "Suc f"] by simp
  have B: "\<forall>uerr. status_update e (Suc n) = Some uerr \<longrightarrow>
      fst (Reconcile (Suc n + f) K e) = Some (Return zero_Result (Some uerr))
      \<and> status_calls (calls (snd (Reconcile (Suc n + f) K e))) = replicate (Suc n) ?P @ [?P]
      \<and> persisted (snd (Reconcile (Suc n + f) K e)) = replicate (Suc n) ?P"
  proof (intro allI impI)
    fix uerr assume u: "status_update e (Suc n) = Some uerr"
    have "Reconcile (Suc n + f) K e =
        (Some (Return zero_Result (Some uerr)),
         \<lparr>gkcCR = obj\<lparr>Phase := ?P\<rparr>, persisted = replicate (Suc n) ?P,
          calls = calls (waiting K obj n) @ tick_calls K obj
                    @ [LoggerError ''error updating gcpkubernetescluster status''],
          gets = Suc (Suc n), updates = Suc (Suc n), selects = Suc n\<rparr>)"
      using run poll_body_refresh_refused [OF assms(7,8) u, of K obj] by simp
    then show "fst (Reconcile (Suc n + f) K e) = Some (Return zero_Result (Some uerr))
        \<and> status_calls (calls (snd (Reconcile (Suc n + f) K e))) = replicate (Suc n) ?P @ [?P]
        \<and> persisted (snd (Reconcile (Suc n + f) K e)) = replicate (Suc n) ?P"
      by (simp add: sc_tick del: replicate_Suc)
  qed
  have C: "status_update e (Suc n) = None \<and> \<not> terminal_status K (cl_Status c) \<longrightarrow>
      fst (Reconcile (Suc n) K e) = None
      \<and> status_calls (calls (snd (Reconcile (Suc n) K e))) = replicate (Suc n) ?P @ [?P]
      \<and> persisted (snd (Reconcile (Suc n) K e)) =
          status_calls (calls (snd (Reconcile (Suc n) K e)))"
  proof
    assume h: "status_update e (Suc n) = None \<and> \<not> terminal_status K (cl_Status c)"
    with assms(7,8) have "continues K e n" by (simp add: continues_def)
    with assms(6) have "\<forall>i<Suc n. continues K e i" by (simp add: less_Suc_eq)
    then have "Reconcile (Suc n + 0) K e = poll_loop 0 K e (waiting K obj (Suc n))"
      by (rule at_wait)
    moreover have "persisted (waiting K obj (Suc n)) = replicate (Suc (Suc n)) ?P"
      by (simp add: waiting_def)
    ultimately show "fst (Reconcile (Suc n) K e) = None
        \<and> status_calls (calls (snd (Reconcile (Suc n) K e))) = replicate (Suc n) ?P @ [?P]
        \<and> persisted (snd (Reconcile (Suc n) K e)) =
            status_calls (calls (snd (Reconcile (Suc n) K e)))"
      using snoc by (simp add: status_calls_waiting del: replicate_Suc)
  qed
  have D: "status_update e (Suc n) = None \<and> terminal_status K (cl_Status c) \<longrightarrow>
      status_calls (calls (snd (Reconcile (Suc n + f) K e))) =
        replicate (Suc n) ?P @ [?P, final_phase K (cl_Status c)]
      \<and> (status_update e (Suc (Suc n)) = None \<longrightarrow>
            fst (Reconcile (Suc n + f) K e) = Some (Return zero_Result None)
          \<and> persisted (snd (Reconcile (Suc n + f) K e)) =
              status_calls (calls (snd (Reconcile (Suc n + f) K e)))
          \<and> last (persisted (snd (Reconcile (Suc n + f) K e))) = final_phase K (cl_Status c))
      \<and> (\<forall>uerr. status_update e (Suc (Suc n)) = Some uerr \<longrightarrow>
            fst (Reconcile (Suc n + f) K e) = Some (Return zero_Result (Some uerr))
          \<and> persisted (snd (Reconcile (Suc n + f) K e)) = replicate (Suc n) ?P @ [?P]
          \<and> last (persisted (snd (Reconcile (Suc n + f) K e))) = ?P)"
  proof
    assume h: "status_update e (Suc n) = None \<and> terminal_status K (cl_Status c)"
    then have u: "status_update e (Suc n) = None" and t: "terminal_status K (cl_Status c)"
      by simp_all
    show "status_calls (calls (snd (Reconcile (Suc n + f) K e))) =
        replicate (Suc n) ?P @ [?P, final_phase K (cl_Status c)]
      \<and> (status_update e (Suc (Suc n)) = None \<longrightarrow>
            fst (Reconcile (Suc n + f) K e) = Some (Return zero_Result None)
          \<and> persisted (snd (Reconcile (Suc n + f) K e)) =
              status_calls (calls (snd (Reconcile (Suc n + f) K e)))
          \<and> last (persisted (snd (Reconcile (Suc n + f) K e))) = final_phase K (cl_Status c))
      \<and> (\<forall>uerr. status_update e (Suc (Suc n)) = Some uerr \<longrightarrow>
            fst (Reconcile (Suc n + f) K e) = Some (Return zero_Result (Some uerr))
          \<and> persisted (snd (Reconcile (Suc n + f) K e)) = replicate (Suc n) ?P @ [?P]
          \<and> last (persisted (snd (Reconcile (Suc n + f) K e))) = ?P)"
    proof (cases "status_update e (Suc (Suc n))")
      case None
      have "Reconcile (Suc n + f) K e =
         (Some (Return zero_Result None),
          \<lparr>gkcCR = obj\<lparr>Phase := final_phase K (cl_Status c)\<rparr>,
           persisted = replicate (Suc (Suc n)) ?P @ [final_phase K (cl_Status c)],
           calls = calls (waiting K obj n) @ tick_calls K obj @ final_calls K (cl_Status c),
           gets = Suc (Suc n), updates = Suc (Suc (Suc n)), selects = Suc n\<rparr>)"
        using run poll_body_terminal [OF assms(7,8) t u None, of obj] by simp
      with None snoc show ?thesis
        by (simp add: sc_tick status_calls_final del: replicate_Suc)
    next
      case (Some uerr)
      have "Reconcile (Suc n + f) K e =
         (Some (Return zero_Result (Some uerr)),
          \<lparr>gkcCR = obj\<lparr>Phase := final_phase K (cl_Status c)\<rparr>,
           persisted = replicate (Suc (Suc n)) ?P,
           calls = calls (waiting K obj n) @ tick_calls K obj @ final_calls K (cl_Status c)
                     @ [LoggerError ''error updating gcpkubernetescluster status''],
           gets = Suc (Suc n), updates = Suc (Suc (Suc n)), selects = Suc n\<rparr>)"
        using run poll_body_final_refused [OF assms(7,8) t u Some, of obj] by simp
      with Some snoc show ?thesis
        by (simp add: status_calls_append status_calls_waiting status_calls_tick
              status_calls_final del: replicate_Suc)
    qed
  qed
  from A B C D show ?thesis by blast
qed

text \<open>Every case at the demo resource: two ticks in \<open>PROVISIONING\<close> and then
  \<open>DEGRADED\<close> (five writes, \<open>ERROR\<close> last); the first of these ticks alone; the
  write before the inspection refused; the write of \<open>Running\<close> refused.\<close>
theorem poll_loop_writes_per_tick_witness:
  "fst (Reconcile 2 K_gcp env_degraded) = None
   \<and> status_calls (calls (snd (Reconcile 2 K_gcp env_degraded))) =
       [''PROVISIONING'', ''PROVISIONING'', ''PROVISIONING'']
   \<and> fst (Reconcile 3 K_gcp env_degraded) = Some (Return zero_Result None)
   \<and> status_calls (calls (snd (Reconcile 3 K_gcp env_degraded))) =
       [''PROVISIONING'', ''PROVISIONING'', ''PROVISIONING'', ''PROVISIONING'', ''ERROR'']
   \<and> persisted (snd (Reconcile 3 K_gcp env_degraded)) =
       [''PROVISIONING'', ''PROVISIONING'', ''PROVISIONING'', ''PROVISIONING'', ''ERROR'']
   \<and> fst (Reconcile 1 K_gcp env_degraded) = None
   \<and> status_calls (calls (snd (Reconcile 1 K_gcp env_degraded))) =
       [''PROVISIONING'', ''PROVISIONING'']
   \<and> fst (Reconcile 1 K_gcp env_refresh_refused) = Some (Return zero_Result (Some err_conflict))
   \<and> status_calls (calls (snd (Reconcile 1 K_gcp env_refresh_refused))) =
       [''PROVISIONING'', ''PROVISIONING'']
   \<and> persisted (snd (Reconcile 1 K_gcp env_refresh_refused)) = [''PROVISIONING'']
   \<and> fst (Reconcile 1 K_gcp env_running_refused) = Some (Return zero_Result (Some err_conflict))
   \<and> status_calls (calls (snd (Reconcile 1 K_gcp env_running_refused))) =
       [''PROVISIONING'', ''PROVISIONING'', ''RUNNING'']
   \<and> persisted (snd (Reconcile 1 K_gcp env_running_refused)) =
       [''PROVISIONING'', ''PROVISIONING'']"
proof -
  have ph: "ClusterStatusProvisioning K_gcp = ''PROVISIONING''" by (simp add: K_gcp_def)
  have q0: "\<forall>i<0. continues K_gcp e i" for e by simp
  have a: "store_get env_degraded = Inr demo" by (simp add: env_degraded_def)
  have b: "gcp_get env_degraded 0 = Inl err_404" by (simp add: env_degraded_def)
  have c: "gcp_create env_degraded = Inr ''operation-1''" by (simp add: env_degraded_def)
  have d: "status_update env_degraded 0 = None" by (simp add: env_degraded_def)
  have q: "\<forall>i<2. continues K_gcp env_degraded i"
    by (simp add: continues_def terminal_status_def env_degraded_def K_gcp_def demo_cluster_def)
  have s: "select env_degraded 2 = TickerC" by (simp add: env_degraded_def)
  have g: "gcp_get env_degraded (Suc 2) = Inr (demo_cluster ''DEGRADED'')"
    by (simp add: env_degraded_def)
  have ut: "status_update env_degraded (Suc 2) = None
      \<and> terminal_status K_gcp (cl_Status (demo_cluster ''DEGRADED''))"
    by (simp add: env_degraded_def terminal_status_def K_gcp_def demo_cluster_def)
  have v: "status_update env_degraded (Suc (Suc 2)) = None" by (simp add: env_degraded_def)
  have fp: "final_phase K_gcp (cl_Status (demo_cluster ''DEGRADED'')) = ''ERROR''"
    by (simp add: final_phase_def K_gcp_def demo_cluster_def)
  note th = poll_loop_writes_per_tick [OF a b err_404_classified c d q s g, of 0]
  note thD = conjunct2 [OF conjunct2 [OF conjunct2 [OF th]], rule_format, OF ut]
  have w1: "fst (Reconcile 2 K_gcp env_degraded) = None
      \<and> status_calls (calls (snd (Reconcile 2 K_gcp env_degraded))) =
          [''PROVISIONING'', ''PROVISIONING'', ''PROVISIONING'']"
    using conjunct1 [OF th, rule_format, of 2] ph by (simp add: eval_nat_numeral)
  have e3: "Suc 2 + 0 = (3::nat)" by simp
  have w2: "fst (Reconcile 3 K_gcp env_degraded) = Some (Return zero_Result None)
      \<and> status_calls (calls (snd (Reconcile 3 K_gcp env_degraded))) =
          [''PROVISIONING'', ''PROVISIONING'', ''PROVISIONING'', ''PROVISIONING'', ''ERROR'']
      \<and> persisted (snd (Reconcile 3 K_gcp env_degraded)) =
          [''PROVISIONING'', ''PROVISIONING'', ''PROVISIONING'', ''PROVISIONING'', ''ERROR'']"
    using conjunct1 [OF thD] conjunct1 [OF conjunct2 [OF thD], rule_format, OF v] ph fp
    by (simp add: e3 eval_nat_numeral)
  have s0: "select env_degraded 0 = TickerC" by (simp add: env_degraded_def)
  have g0: "gcp_get env_degraded (Suc 0) = Inr (demo_cluster ''PROVISIONING'')"
    by (simp add: env_degraded_def)
  have un: "status_update env_degraded (Suc 0) = None
      \<and> \<not> terminal_status K_gcp (cl_Status (demo_cluster ''PROVISIONING''))"
    by (simp add: env_degraded_def terminal_status_def K_gcp_def demo_cluster_def)
  note th0 = poll_loop_writes_per_tick [OF a b err_404_classified c d q0 s0 g0, of 0]
  have w3: "fst (Reconcile 1 K_gcp env_degraded) = None
      \<and> status_calls (calls (snd (Reconcile 1 K_gcp env_degraded))) =
          [''PROVISIONING'', ''PROVISIONING'']"
    using conjunct1 [OF conjunct2 [OF conjunct2 [OF th0]], rule_format, OF un] ph by simp
  have a': "store_get env_refresh_refused = Inr demo"
    by (simp add: env_refresh_refused_def env_running_def)
  have b': "gcp_get env_refresh_refused 0 = Inl err_404"
    by (simp add: env_refresh_refused_def env_running_def)
  have c': "gcp_create env_refresh_refused = Inr ''operation-1''"
    by (simp add: env_refresh_refused_def env_running_def)
  have d': "status_update env_refresh_refused 0 = None"
    by (simp add: env_refresh_refused_def)
  have s': "select env_refresh_refused 0 = TickerC"
    by (simp add: env_refresh_refused_def env_running_def)
  have g': "gcp_get env_refresh_refused (Suc 0) = Inr (demo_cluster ''RUNNING'')"
    by (simp add: env_refresh_refused_def env_running_def)
  have u': "status_update env_refresh_refused (Suc 0) = Some err_conflict"
    by (simp add: env_refresh_refused_def)
  note th' = poll_loop_writes_per_tick [OF a' b' err_404_classified c' d' q0 s' g', of 0]
  have w4: "fst (Reconcile 1 K_gcp env_refresh_refused) =
        Some (Return zero_Result (Some err_conflict))
      \<and> status_calls (calls (snd (Reconcile 1 K_gcp env_refresh_refused))) =
          [''PROVISIONING'', ''PROVISIONING'']
      \<and> persisted (snd (Reconcile 1 K_gcp env_refresh_refused)) = [''PROVISIONING'']"
    using conjunct1 [OF conjunct2 [OF th'], rule_format, OF u'] ph by simp
  have a'': "store_get env_running_refused = Inr demo"
    by (simp add: env_running_refused_def env_running_def)
  have b'': "gcp_get env_running_refused 0 = Inl err_404"
    by (simp add: env_running_refused_def env_running_def)
  have c'': "gcp_create env_running_refused = Inr ''operation-1''"
    by (simp add: env_running_refused_def env_running_def)
  have d'': "status_update env_running_refused 0 = None"
    by (simp add: env_running_refused_def)
  have s'': "select env_running_refused 0 = TickerC"
    by (simp add: env_running_refused_def env_running_def)
  have g'': "gcp_get env_running_refused (Suc 0) = Inr (demo_cluster ''RUNNING'')"
    by (simp add: env_running_refused_def env_running_def)
  have ut'': "status_update env_running_refused (Suc 0) = None
      \<and> terminal_status K_gcp (cl_Status (demo_cluster ''RUNNING''))"
    by (simp add: env_running_refused_def terminal_status_def K_gcp_def demo_cluster_def)
  have v'': "status_update env_running_refused (Suc (Suc 0)) = Some err_conflict"
    by (simp add: env_running_refused_def)
  have fp'': "final_phase K_gcp (cl_Status (demo_cluster ''RUNNING'')) = ''RUNNING''"
    by (simp add: final_phase_def K_gcp_def demo_cluster_def)
  note th'' = poll_loop_writes_per_tick [OF a'' b'' err_404_classified c'' d'' q0 s'' g'', of 0]
  note thD'' = conjunct2 [OF conjunct2 [OF conjunct2 [OF th'']], rule_format, OF ut'']
  have w5: "fst (Reconcile 1 K_gcp env_running_refused) =
        Some (Return zero_Result (Some err_conflict))
      \<and> status_calls (calls (snd (Reconcile 1 K_gcp env_running_refused))) =
          [''PROVISIONING'', ''PROVISIONING'', ''RUNNING'']
      \<and> persisted (snd (Reconcile 1 K_gcp env_running_refused)) =
          [''PROVISIONING'', ''PROVISIONING'']"
    using conjunct1 [OF thD''] conjunct2 [OF conjunct2 [OF thD''], rule_format, OF v''] ph fp''
    by simp
  from w1 w2 w3 w4 w5 show ?thesis by blast
qed

text \<open>As stated, with one write for every tick and a clean exit in every run that
  observes a terminal status, the property fails: the single tick that observes
  \<open>RUNNING\<close> makes two status writes, and when the store refuses the write of
  \<open>Running\<close> the loop ends with that error, \<open>Provisioning\<close> being the last phase
  the store accepted.\<close>
theorem poll_loop_writes_per_tick_counterexample:
  "fst (Reconcile 0 K_gcp env_running) = None
   \<and> status_calls (calls (snd (Reconcile 0 K_gcp env_running))) = [''PROVISIONING'']
   \<and> selects (snd (Reconcile 1 K_gcp env_running)) = 1
   \<and> status_calls (calls (snd (Reconcile 1 K_gcp env_running))) =
       [''PROVISIONING'', ''PROVISIONING'', ''RUNNING'']
   \<and> length (status_calls (calls (snd (Reconcile 1 K_gcp env_running)))) \<noteq>
       length (status_calls (calls (snd (Reconcile 0 K_gcp env_running)))) + 1
   \<and> fst (Reconcile 1 K_gcp env_running_refused) = Some (Return zero_Result (Some err_conflict))
   \<and> fst (Reconcile 1 K_gcp env_running_refused) \<noteq> Some (Return zero_Result None)
   \<and> last (persisted (snd (Reconcile 1 K_gcp env_running_refused))) = ''PROVISIONING''"
  by code_simp

text \<open>
  C3 (as amended). When the resource is in the store and the first query finds
  the cluster, \<open>Reconcile\<close> makes exactly one status write, of \<open>Running\<close> whatever
  status the provider reported, emits exactly one event (Normal,
  ClusterDetection, "GCP Kubernetes Cluster found") and makes no create call.
  If the write succeeds, the store holds \<open>Running\<close> and \<open>Reconcile\<close> returns a
  requeue after 60 seconds with no error; if the write is refused, \<open>Reconcile\<close>
  returns the zero result with the error of the write.
\<close>
theorem found_cluster_is_marked_running:
  assumes "store_get e = Inr obj" and "gcp_get e 0 = Inr gkc"
  shows "status_calls (calls (snd (Reconcile fuel K e))) = [ClusterStatusRunning K]
       \<and> event_calls (calls (snd (Reconcile fuel K e))) =
           [(''Normal'', ''ClusterDetection'', ''GCP Kubernetes Cluster found'')]
       \<and> create_calls (calls (snd (Reconcile fuel K e))) = []
       \<and> (status_update e 0 = None \<longrightarrow>
             fst (Reconcile fuel K e) =
               Some (Return \<lparr>Requeue = False, RequeueAfter = Second * 60\<rparr> None)
           \<and> persisted (snd (Reconcile fuel K e)) = [ClusterStatusRunning K])
       \<and> (\<forall>uerr. status_update e 0 = Some uerr \<longrightarrow>
             fst (Reconcile fuel K e) = Some (Return zero_Result (Some uerr))
           \<and> persisted (snd (Reconcile fuel K e)) = [])"
proof (cases "status_update e 0")
  case None
  with assms show ?thesis by (simp add: Reconcile_detect_written)
next
  case (Some uerr)
  with assms show ?thesis by (simp add: Reconcile_detect_refused)
qed

text \<open>A cluster the provider reports in \<open>ERROR\<close> is written as \<open>RUNNING\<close>; with the
  write accepted, and with the write refused.\<close>
theorem found_cluster_is_marked_running_witness:
  "cl_Status (demo_cluster ''ERROR'') = ''ERROR''
   \<and> status_calls (calls (snd (Reconcile 0 K_gcp env_found))) = [''RUNNING'']
   \<and> event_calls (calls (snd (Reconcile 0 K_gcp env_found))) =
       [(''Normal'', ''ClusterDetection'', ''GCP Kubernetes Cluster found'')]
   \<and> fst (Reconcile 0 K_gcp env_found) =
       Some (Return \<lparr>Requeue = False, RequeueAfter = 60000000000\<rparr> None)
   \<and> persisted (snd (Reconcile 0 K_gcp env_found)) = [''RUNNING'']
   \<and> status_calls (calls (snd (Reconcile 0 K_gcp env_found_refused))) = [''RUNNING'']
   \<and> fst (Reconcile 0 K_gcp env_found_refused) = Some (Return zero_Result (Some err_conflict))
   \<and> persisted (snd (Reconcile 0 K_gcp env_found_refused)) = []"
proof -
  have a: "store_get env_found = Inr demo" by (simp add: env_found_def)
  have b: "gcp_get env_found 0 = Inr (demo_cluster ''ERROR'')" by (simp add: env_found_def)
  have c: "status_update env_found 0 = None" by (simp add: env_found_def)
  have a': "store_get env_found_refused = Inr demo"
    by (simp add: env_found_refused_def env_found_def)
  have b': "gcp_get env_found_refused 0 = Inr (demo_cluster ''ERROR'')"
    by (simp add: env_found_refused_def env_found_def)
  have c': "status_update env_found_refused 0 = Some err_conflict"
    by (simp add: env_found_refused_def)
  have r: "ClusterStatusRunning K_gcp = ''RUNNING''" by (simp add: K_gcp_def)
  have st: "cl_Status (demo_cluster ''ERROR'') = ''ERROR''" by (simp add: demo_cluster_def)
  show ?thesis
    using found_cluster_is_marked_running [OF a b, of 0 K_gcp]
      found_cluster_is_marked_running [OF a' b', of 0 K_gcp] c c' r st
    by (simp add: Second_def)
qed

text \<open>As stated, for every resource whose cluster exists, the property fails:
  when the status write is refused there is an error and no requeue directive.\<close>
theorem found_cluster_is_marked_running_counterexample:
  "fst (Reconcile 0 K_gcp env_found_refused) = Some (Return zero_Result (Some err_conflict))
   \<and> fst (Reconcile 0 K_gcp env_found_refused) \<noteq>
       Some (Return \<lparr>Requeue = False, RequeueAfter = Second * 60\<rparr> None)
   \<and> persisted (snd (Reconcile 0 K_gcp env_found_refused)) = []"
  by code_simp

text \<open>
  C4. The property asks the classifier to answer false on every error whose text
  has not the not-found shape. On the text \<open>context deadline exceeded\<close>, which has
  no colon and so not the shape, \<open>notFoundGCPResource\<close> does not answer false: it
  panics on its index expression. (Lemma \<open>classifier_matches_shape\<close> shows that the
  classifier is right on every text with a colon, and \<open>no_creation_without_shape\<close>
  that the creation branch is never taken without the shape.)
\<close>
theorem classifier_on_text_without_colon:
  "\<not> not_found_shape (message err_deadline)
   \<and> notFoundGCPResource (Some err_deadline) = Inl (IndexOutOfRange 1 1)
   \<and> notFoundGCPResource (Some err_deadline) \<noteq> Inr False"
  by (simp add: not_found_shape_def notFoundGCPResource_def Sprintf_v_def err_deadline_def)

text \<open>
  C5. When the resource is not in the store (\<open>cr.Get\<close> answers an error that
  \<open>kerr.IsNotFound\<close> recognises), \<open>Reconcile\<close> returns the zero result with no error,
  whatever the other collaborators would answer, and makes no status write and no
  event: its only calls are the read and one log line.
\<close>
theorem store_not_found_is_silent:
  assumes "store_get e = Inl err" and "is_k8s_not_found err"
  shows "fst (Reconcile fuel K e) = Some (Return zero_Result None)
       \<and> status_calls (calls (snd (Reconcile fuel K e))) = []
       \<and> event_calls (calls (snd (Reconcile fuel K e))) = []
       \<and> persisted (snd (Reconcile fuel K e)) = []
       \<and> calls (snd (Reconcile fuel K e)) =
           [ClientGet, LoggerInfo ''gcpkubernetescluster not found'']"
  using assms by (simp add: Reconcile_store_error init_state_def)

theorem store_not_found_is_silent_witness:
  "store_get env_gone = Inl err_store_not_found \<and> is_k8s_not_found err_store_not_found
   \<and> fst (Reconcile 3 K_gcp env_gone) = Some (Return zero_Result None)
   \<and> status_calls (calls (snd (Reconcile 3 K_gcp env_gone))) = []
   \<and> event_calls (calls (snd (Reconcile 3 K_gcp env_gone))) = []
   \<and> persisted (snd (Reconcile 3 K_gcp env_gone)) = []"
proof -
  have g: "store_get env_gone = Inl err_store_not_found" by (simp add: env_gone_def)
  have n: "is_k8s_not_found err_store_not_found" by (simp add: err_store_not_found_def)
  show ?thesis
    using g n store_not_found_is_silent [OF g n, of 3 K_gcp] by simp
qed

text \<open>
  C6. On the creation path, when the invocation is cancelled while the loop waits
  for the \<open>(n + 1)\<close>-th time (after \<open>n\<close> ticks that went round), \<open>Reconcile\<close> returns
  the zero result with the cancellation error; between the state of that wait
  (\<open>Reconcile n\<close>, still running) and the return no call is made: the status
  writes are the \<open>n + 1\<close> writes of \<open>Provisioning\<close> made before, and the store keeps
  what it had accepted, \<open>Provisioning\<close> last.
\<close>
theorem cancellation_returns_without_writing:
  assumes "store_get e = Inr obj" and "gcp_get e 0 = Inl err"
      and "notFoundGCPResource (Some err) = Inr True"
      and "gcp_create e = Inr op" and "status_update e 0 = None"
      and "\<forall>i<n. continues K e i"
      and "select e n = CtxDone cerr"
  shows "Reconcile n K e = (None, waiting K obj n)
       \<and> Reconcile (Suc n + f) K e =
           (Some (Return zero_Result (Some cerr)), (waiting K obj n)\<lparr>selects := Suc n\<rparr>)
       \<and> calls (snd (Reconcile (Suc n + f) K e)) = calls (snd (Reconcile n K e))
       \<and> status_calls (calls (snd (Reconcile (Suc n + f) K e))) =
           replicate (Suc n) (ClusterStatusProvisioning K)
       \<and> persisted (snd (Reconcile (Suc n + f) K e)) = persisted (snd (Reconcile n K e))
       \<and> last (persisted (snd (Reconcile (Suc n + f) K e))) = ClusterStatusProvisioning K"
proof -
  have w: "Reconcile (n + 0) K e = poll_loop 0 K e (waiting K obj n)"
    using assms(1-6) by (rule Reconcile_reaches_wait)
  then have at_wait: "Reconcile n K e = (None, waiting K obj n)" by simp
  have "Reconcile (n + Suc f) K e = poll_loop (Suc f) K e (waiting K obj n)"
    using assms(1-6) by (rule Reconcile_reaches_wait)
  moreover have "selects (waiting K obj n) = n" by (simp add: waiting_def)
  ultimately have fin: "Reconcile (Suc n + f) K e =
      (Some (Return zero_Result (Some cerr)), (waiting K obj n)\<lparr>selects := Suc n\<rparr>)"
    using assms(7) by (simp add: poll_body_cancel)
  have "persisted (waiting K obj n) = replicate (Suc n) (ClusterStatusProvisioning K)"
    by (simp add: waiting_def)
  with at_wait fin show ?thesis
    by (simp add: status_calls_waiting del: replicate_Suc)
qed

theorem cancellation_returns_without_writing_witness:
  "Reconcile 1 K_gcp env_cancelled = (None, waiting K_gcp demo 1)
   \<and> Reconcile 2 K_gcp env_cancelled =
       (Some (Return zero_Result (Some err_canceled)), (waiting K_gcp demo 1)\<lparr>selects := 2\<rparr>)
   \<and> status_calls (calls (snd (Reconcile 2 K_gcp env_cancelled))) =
       [''PROVISIONING'', ''PROVISIONING'']
   \<and> persisted (snd (Reconcile 2 K_gcp env_cancelled)) = [''PROVISIONING'', ''PROVISIONING'']"
proof -
  have a: "store_get env_cancelled = Inr demo" by (simp add: env_cancelled_def)
  have b: "gcp_get env_cancelled 0 = Inl err_404" by (simp add: env_cancelled_def)
  have c: "gcp_create env_cancelled = Inr ''operation-1''" by (simp add: env_cancelled_def)
  have d: "status_update env_cancelled 0 = None" by (simp add: env_cancelled_def)
  have q: "\<forall>i<1. continues K_gcp env_cancelled i"
    by (simp add: continues_def terminal_status_def env_cancelled_def K_gcp_def demo_cluster_def)
  have x: "select env_cancelled 1 = CtxDone err_canceled" by (simp add: env_cancelled_def)
  have p: "replicate (Suc 1) (ClusterStatusProvisioning K_gcp) = [''PROVISIONING'', ''PROVISIONING'']"
    by (simp add: K_gcp_def)
  have w: "persisted (waiting K_gcp demo 1) = [''PROVISIONING'', ''PROVISIONING'']"
    by (simp add: waiting_def K_gcp_def)
  show ?thesis
    using cancellation_returns_without_writing [OF a b err_404_classified c d q x, of 0] p w
    by (simp add: numeral_2_eq_2 status_calls_waiting)
qed

text \<open>
  C7. The property asks \<open>Reconcile\<close> to return every query error other than
  not-found. When the first query fails with the text \<open>context deadline exceeded\<close>,
  \<open>Reconcile\<close> does not return that error: the classifier panics before the
  branch that returns it (line 114) is reached. (Lemmas
  \<open>first_query_error_is_returned\<close> and \<open>poll_query_error_is_returned\<close> show that the
  error is returned, and nothing written, for a first query whose text has a
  colon and for the query of any tick.)
\<close>
theorem first_query_error_without_colon:
  "fst (Reconcile 1 K_gcp env_deadline) = Some (Panicked (IndexOutOfRange 1 1))
   \<and> fst (Reconcile 1 K_gcp env_deadline) \<noteq> Some (Return zero_Result (Some err_deadline))"
proof -
  have "store_get env_deadline = Inr demo" and "gcp_get env_deadline 0 = Inl err_deadline"
    by (simp_all add: env_deadline_def)
  moreover have "notFoundGCPResource (Some err_deadline) = Inl (IndexOutOfRange 1 1)"
    by (simp add: notFoundGCPResource_no_colon err_deadline_def)
  ultimately show ?thesis by (simp add: Reconcile_classifier_panics)
qed

text \<open>
  C8 (as amended). On the creation path, with the create call and every status
  write succeeding, let \<open>n\<close> ticks go round and let the query of tick \<open>n\<close> answer
  status \<open>Running\<close>. Then \<open>Reconcile\<close> returns the zero result with no error, having
  made exactly one create call, \<open>n + 3\<close> status writes (\<open>n + 2\<close> of \<open>Provisioning\<close>,
  then \<open>Running\<close>), all accepted, and \<open>n + 3\<close> events: ClusterCreation, \<open>n + 1\<close> of
  ClusterProvisioning, then ClusterRunning, all Normal. With \<open>RUNNING\<close> at the
  first tick (\<open>n = 0\<close>, the second query overall) that is three writes and three
  events.
\<close>
theorem created_then_running:
  assumes "store_get e = Inr obj" and "gcp_get e 0 = Inl err"
      and "notFoundGCPResource (Some err) = Inr True"
      and "gcp_create e = Inr op" and "status_update e 0 = None"
      and "\<forall>i<n. continues K e i"
      and "select e n = TickerC" and "gcp_get e (Suc n) = Inr c"
      and "cl_Status c = ClusterStatusRunning K"
      and "status_update e (Suc n) = None" and "status_update e (Suc (Suc n)) = None"
  shows "fst (Reconcile (Suc n + f) K e) = Some (Return zero_Result None)
       \<and> create_calls (calls (snd (Reconcile (Suc n + f) K e))) =
           [(Zone (Spec obj), ClusterName (Spec obj), InitialNodeCount (Spec obj))]
       \<and> status_calls (calls (snd (Reconcile (Suc n + f) K e))) =
           replicate (Suc (Suc n)) (ClusterStatusProvisioning K) @ [ClusterStatusRunning K]
       \<and> persisted (snd (Reconcile (Suc n + f) K e)) =
           replicate (Suc (Suc n)) (ClusterStatusProvisioning K) @ [ClusterStatusRunning K]
       \<and> event_calls (calls (snd (Reconcile (Suc n + f) K e))) =
           (''Normal'', ''ClusterCreation'', ''GCP Kubernetes Cluster creating'')
             # replicate (Suc n)
                 (''Normal'', ''ClusterProvisioning'', ''GCP Kubernetes Cluster provisioning'')
             @ [(''Normal'', ''ClusterRunning'', ''GCP Kubernetes Cluster running'')]"
proof -
  from assms(9) have tm: "terminal_status K (cl_Status c)"
    by (simp add: terminal_status_def)
  from assms(9) have fp: "final_phase K (cl_Status c) = ClusterStatusRunning K"
    by (simp add: final_phase_def)
  from assms(9) have fc: "final_calls K (cl_Status c) =
      [Event ''Normal'' ''ClusterRunning'' ''GCP Kubernetes Cluster running'',
       LoggerInfo ''GCP Kubernetes Cluster running'',
       StatusUpdate (ClusterStatusRunning K)]"
    by (simp add: final_calls_def)
  have "Reconcile (n + Suc f) K e = poll_loop (Suc f) K e (waiting K obj n)"
    using assms(1-6) by (rule Reconcile_reaches_wait)
  then have fin: "Reconcile (Suc n + f) K e =
     (Some (Return zero_Result None),
      \<lparr>gkcCR = obj\<lparr>Phase := ClusterStatusRunning K\<rparr>,
       persisted = replicate (Suc (Suc n)) (ClusterStatusProvisioning K)
                     @ [ClusterStatusRunning K],
       calls = calls (waiting K obj n) @ tick_calls K obj @ final_calls K (cl_Status c),
       gets = Suc (Suc n), updates = Suc (Suc (Suc n)), selects = Suc n\<rparr>)"
    using poll_body_terminal [OF assms(7,8) tm assms(10,11), of obj] fp by simp
  have ev: "event_calls (tick_calls K obj @ final_calls K (cl_Status c)) =
      [(''Normal'', ''ClusterProvisioning'', ''GCP Kubernetes Cluster provisioning''),
       (''Normal'', ''ClusterRunning'', ''GCP Kubernetes Cluster running'')]"
    by (simp add: fc tick_calls_def)
  have st: "status_calls (tick_calls K obj @ final_calls K (cl_Status c)) =
      [ClusterStatusProvisioning K, ClusterStatusRunning K]"
    by (simp add: fc tick_calls_def)
  have cr: "create_calls (tick_calls K obj @ final_calls K (cl_Status c)) = []"
    by (simp add: fc tick_calls_def)
  have r1: "replicate (Suc n) x @ [x, y] = replicate (Suc (Suc n)) x @ [y]" for x y :: "'a"
    using replicate_append_same [of "Suc n" x] by simp
  have r2: "(z # replicate n x) @ [x, y] = z # replicate (Suc n) x @ [y]" for x y z :: "'a"
    using replicate_append_same [of n x] by simp
  from fin have "fst (Reconcile (Suc n + f) K e) = Some (Return zero_Result None)" by simp
  moreover from fin have "create_calls (calls (snd (Reconcile (Suc n + f) K e))) =
      [(Zone (Spec obj), ClusterName (Spec obj), InitialNodeCount (Spec obj))]"
    by (simp add: create_calls_append [of "calls (waiting K obj n)"] create_calls_waiting cr)
  moreover from fin have "status_calls (calls (snd (Reconcile (Suc n + f) K e))) =
      replicate (Suc (Suc n)) (ClusterStatusProvisioning K) @ [ClusterStatusRunning K]"
    by (simp add: status_calls_append [of "calls (waiting K obj n)"] status_calls_waiting st r1
          del: replicate_Suc append_Cons)
  moreover from fin have "persisted (snd (Reconcile (Suc n + f) K e)) =
      replicate (Suc (Suc n)) (ClusterStatusProvisioning K) @ [ClusterStatusRunning K]"
    by simp
  moreover from fin have "event_calls (calls (snd (Reconcile (Suc n + f) K e))) =
      (''Normal'', ''ClusterCreation'', ''GCP Kubernetes Cluster creating'')
        # replicate (Suc n)
            (''Normal'', ''ClusterProvisioning'', ''GCP Kubernetes Cluster provisioning'')
        @ [(''Normal'', ''ClusterRunning'', ''GCP Kubernetes Cluster running'')]"
    by (simp add: event_calls_append [of "calls (waiting K obj n)"] event_calls_waiting ev r2
          del: replicate_Suc append_Cons)
  ultimately show ?thesis by blast
qed

text \<open>The scenario of the demo resource, \<open>RUNNING\<close> at the first tick.\<close>
theorem created_then_running_witness:
  "fst (Reconcile 1 K_gcp env_running) = Some (Return zero_Result None)
   \<and> create_calls (calls (snd (Reconcile 1 K_gcp env_running))) =
       [(''us-central1-a'', ''demo'', 3)]
   \<and> status_calls (calls (snd (Reconcile 1 K_gcp env_running))) =
       [''PROVISIONING'', ''PROVISIONING'', ''RUNNING'']
   \<and> persisted (snd (Reconcile 1 K_gcp env_running)) =
       [''PROVISIONING'', ''PROVISIONING'', ''RUNNING'']
   \<and> event_calls (calls (snd (Reconcile 1 K_gcp env_running))) =
       [(''Normal'', ''ClusterCreation'', ''GCP Kubernetes Cluster creating''),
        (''Normal'', ''ClusterProvisioning'', ''GCP Kubernetes Cluster provisioning''),
        (''Normal'', ''ClusterRunning'', ''GCP Kubernetes Cluster running'')]"
proof -
  have a: "store_get env_running = Inr demo" by (simp add: env_running_def)
  have b: "gcp_get env_running 0 = Inl err_404" by (simp add: env_running_def)
  have c: "gcp_create env_running = Inr ''operation-1''" by (simp add: env_running_def)
  have d: "status_update env_running 0 = None" by (simp add: env_running_def)
  have q: "\<forall>i<0. continues K_gcp env_running i" by simp
  have s: "select env_running 0 = TickerC" by (simp add: env_running_def)
  have g: "gcp_get env_running (Suc 0) = Inr (demo_cluster ''RUNNING'')"
    by (simp add: env_running_def)
  have r: "cl_Status (demo_cluster ''RUNNING'') = ClusterStatusRunning K_gcp"
    by (simp add: demo_cluster_def K_gcp_def)
  have u: "status_update env_running (Suc 0) = None" by (simp add: env_running_def)
  have v: "status_update env_running (Suc (Suc 0)) = None" by (simp add: env_running_def)
  have sp: "Spec demo = \<lparr>Zone = ''us-central1-a'', ClusterName = ''demo'', InitialNodeCount = 3\<rparr>"
    by (simp add: demo_def)
  have ph: "ClusterStatusProvisioning K_gcp = ''PROVISIONING''"
    and ru: "ClusterStatusRunning K_gcp = ''RUNNING''"
    by (simp_all add: K_gcp_def)
  show ?thesis
    using created_then_running [OF a b err_404_classified c d q s g r u v, of 0] sp ph ru
    by simp
qed

text \<open>As stated, with two status writes and two events, the property fails: with
  \<open>RUNNING\<close> at the first tick there are three of each, and with \<open>RUNNING\<close> at the
  second tick four of each.\<close>
theorem created_then_running_counterexample:
  "fst (Reconcile 1 K_gcp env_running) = Some (Return zero_Result None)
   \<and> status_calls (calls (snd (Reconcile 1 K_gcp env_running))) \<noteq> [''PROVISIONING'', ''RUNNING'']
   \<and> length (status_calls (calls (snd (Reconcile 1 K_gcp env_running)))) = 3
   \<and> length (event_calls (calls (snd (Reconcile 1 K_gcp env_running)))) = 3
   \<and> fst (Reconcile 2 K_gcp env_running_late) = Some (Return zero_Result None)
   \<and> length (status_calls (calls (snd (Reconcile 2 K_gcp env_running_late)))) = 4
   \<and> length (event_calls (calls (snd (Reconcile 2 K_gcp env_running_late)))) = 4"
  by code_simp

text \<open>
  C9. For an error whose text has no colon, \<open>strings.Split\<close> yields a single piece,
  so the index expression of \<open>notFoundGCPResource\<close> panics (index 1, length 1)
  instead of answering false; when the first query of \<open>Reconcile\<close> fails with such
  an error, \<open>Reconcile\<close> panics.
\<close>
theorem classifier_panics_without_colon:
  assumes "CHR '':'' \<notin> set (message err)"
      and "store_get e = Inr obj" and "gcp_get e 0 = Inl err"
  shows "strings_Split (Sprintf_v (Some err)) (CHR '':'') = [message err]
       \<and> notFoundGCPResource (Some err) = Inl (IndexOutOfRange 1 1)
       \<and> fst (Reconcile fuel K e) = Some (Panicked (IndexOutOfRange 1 1))"
proof -
  from assms(1) have p: "notFoundGCPResource (Some err) = Inl (IndexOutOfRange 1 1)"
    by (rule notFoundGCPResource_no_colon)
  from assms(1) have "strings_Split (Sprintf_v (Some err)) (CHR '':'') = [message err]"
    by (simp add: Sprintf_v_def strings_Split_no_sep)
  moreover from assms(2,3) p
  have "fst (Reconcile fuel K e) = Some (Panicked (IndexOutOfRange 1 1))"
    by (simp add: Reconcile_classifier_panics)
  ultimately show ?thesis using p by simp
qed

theorem classifier_panics_without_colon_witness:
  "CHR '':'' \<notin> set (message err_deadline)
   \<and> store_get env_deadline = Inr demo \<and> gcp_get env_deadline 0 = Inl err_deadline
   \<and> strings_Split (Sprintf_v (Some err_deadline)) (CHR '':'') = [message err_deadline]
   \<and> notFoundGCPResource (Some err_deadline) = Inl (IndexOutOfRange 1 1)
   \<and> fst (Reconcile 2 K_gcp env_deadline) = Some (Panicked (IndexOutOfRange 1 1))"
proof -
  have a: "CHR '':'' \<notin> set (message err_deadline)" by (simp add: err_deadline_def)
  have b: "store_get env_deadline = Inr demo" by (simp add: env_deadline_def)
  have c: "gcp_get env_deadline 0 = Inl err_deadline" by (simp add: env_deadline_def)
  show ?thesis
    using a b c classifier_panics_without_colon [OF a b c, of 2 K_gcp] by simp
qed

text \<open>
  C10. Whenever \<open>Reconcile\<close> returns with an error, its result is the zero result.
  Whenever it returns a result other than the zero result, that result is the
  requeue after 60 seconds, there is no error, and the run is the detection path
  with its status write accepted. And a tick of the loop that observes a
  terminal status, its two status writes succeeding, returns the zero result
  with no error.
\<close>
theorem requeue_only_after_detection:
  "(\<forall>r err. fst (Reconcile fuel K e) = Some (Return r err) \<longrightarrow>
       (err \<noteq> None \<longrightarrow> r = zero_Result)
     \<and> (r \<noteq> zero_Result \<longrightarrow>
          r = \<lparr>Requeue = False, RequeueAfter = Second * 60\<rparr> \<and> err = None
        \<and> (\<exists>obj gkc. store_get e = Inr obj \<and> gcp_get e 0 = Inr gkc)
        \<and> status_update e 0 = None))
   \<and> (\<forall>s c. select e (selects s) = TickerC \<and> gcp_get e (gets s) = Inr c
          \<and> terminal_status K (cl_Status c)
          \<and> status_update e (updates s) = None \<and> status_update e (Suc (updates s)) = None \<longrightarrow>
        fst (poll_body K e s) = Some (Return zero_Result None))"
proof (intro conjI allI impI)
  fix r err
  assume ret: "fst (Reconcile fuel K e) = Some (Return r err)"
  note alt = Reconcile_returns [OF ret]
  { assume "err \<noteq> None"
    with alt show "r = zero_Result" by blast }
  { assume "r \<noteq> zero_Result"
    with alt show "r = \<lparr>Requeue = False, RequeueAfter = Second * 60\<rparr>"
      and "err = None"
      and "\<exists>obj gkc. store_get e = Inr obj \<and> gcp_get e 0 = Inr gkc"
      and "status_update e 0 = None"
      by blast+ }
next
  fix s :: state and c
  assume "select e (selects s) = TickerC \<and> gcp_get e (gets s) = Inr c
          \<and> terminal_status K (cl_Status c)
          \<and> status_update e (updates s) = None \<and> status_update e (Suc (updates s)) = None"
  then show "fst (poll_body K e s) = Some (Return zero_Result None)"
    by (simp add: fst_poll_body)
qed

text \<open>The detection path with its write accepted and refused, and the tick of
  the loop that observes \<open>DEGRADED\<close>.\<close>
theorem requeue_only_after_detection_witness:
  "fst (Reconcile 0 K_gcp env_found) =
     Some (Return \<lparr>Requeue = False, RequeueAfter = Second * 60\<rparr> None)
   \<and> \<lparr>Requeue = False, RequeueAfter = Second * 60\<rparr> \<noteq> zero_Result
   \<and> (\<exists>obj gkc. store_get env_found = Inr obj \<and> gcp_get env_found 0 = Inr gkc)
   \<and> status_update env_found 0 = None
   \<and> fst (Reconcile 0 K_gcp env_found_refused) = Some (Return zero_Result (Some err_conflict))
   \<and> Some err_conflict \<noteq> None
   \<and> select env_degraded (selects (waiting K_gcp demo 2)) = TickerC
   \<and> terminal_status K_gcp (cl_Status (demo_cluster ''DEGRADED''))
   \<and> fst (poll_body K_gcp env_degraded (waiting K_gcp demo 2)) = Some (Return zero_Result None)"
proof -
  have a: "store_get env_found = Inr demo" by (simp add: env_found_def)
  have b: "gcp_get env_found 0 = Inr (demo_cluster ''ERROR'')" by (simp add: env_found_def)
  have c: "status_update env_found 0 = None" by (simp add: env_found_def)
  have ret: "fst (Reconcile 0 K_gcp env_found) =
      Some (Return \<lparr>Requeue = False, RequeueAfter = Second * 60\<rparr> None)"
    using a b c by (simp add: Reconcile_detect_written)
  have a': "store_get env_found_refused = Inr demo"
    by (simp add: env_found_refused_def env_found_def)
  have b': "gcp_get env_found_refused 0 = Inr (demo_cluster ''ERROR'')"
    by (simp add: env_found_refused_def env_found_def)
  have c': "status_update env_found_refused 0 = Some err_conflict"
    by (simp add: env_found_refused_def)
  have ret': "fst (Reconcile 0 K_gcp env_found_refused) =
      Some (Return zero_Result (Some err_conflict))"
    using a' b' c' by (simp add: Reconcile_detect_refused)
  have tick: "select env_degraded (selects (waiting K_gcp demo 2)) = TickerC
      \<and> gcp_get env_degraded (gets (waiting K_gcp demo 2)) = Inr (demo_cluster ''DEGRADED'')
      \<and> terminal_status K_gcp (cl_Status (demo_cluster ''DEGRADED''))
      \<and> status_update env_degraded (updates (waiting K_gcp demo 2)) = None
      \<and> status_update env_degraded (Suc (updates (waiting K_gcp demo 2))) = None"
    by (simp add: env_degraded_def waiting_def terminal_status_def K_gcp_def demo_cluster_def)
  note th = requeue_only_after_detection [of 0 K_gcp env_found]
  note th' = requeue_only_after_detection [of 0 K_gcp env_degraded]
  from conjunct1 [OF th, rule_format, OF ret] sixty_seconds_not_zero
  have "(\<exists>obj gkc. store_get env_found = Inr obj \<and> gcp_get env_found 0 = Inr gkc)
      \<and> status_update env_found 0 = None"
    by blast
  moreover from conjunct2 [OF th', rule_format, OF tick]
  have "fst (poll_body K_gcp env_degraded (waiting K_gcp demo 2)) = Some (Return zero_Result None)" .
  ultimately show ?thesis
    using ret ret' tick sixty_seconds_not_zero by simp
qed

end
